theory Spec2Isabelle
  imports Main
begin

section \<open>Python strings\<close>

text \<open>
  Strings are character lists. The helpers below are the \<open>str\<close> methods the
  sources call: \<open>startswith\<close>, \<open>endswith\<close>, \<open>rstrip(chars)\<close>, \<open>lstrip(chars)\<close>,
  \<open>strip()\<close>, \<open>split(sep)\<close> with a one-character separator, and \<open>str(n)\<close> of
  a non-negative integer.
\<close>

definition startswith :: "string \<Rightarrow> string \<Rightarrow> bool" where
  "startswith s p = (take (length p) s = p)"

definition endswith :: "string \<Rightarrow> string \<Rightarrow> bool" where
  "endswith s p = (length p \<le> length s \<and> drop (length s - length p) s = p)"

definition lstrip_char :: "char \<Rightarrow> string \<Rightarrow> string" where
  "lstrip_char c s = dropWhile (\<lambda>x. x = c) s"

definition rstrip_char :: "char \<Rightarrow> string \<Rightarrow> string" where
  "rstrip_char c s = rev (dropWhile (\<lambda>x. x = c) (rev s))"

text \<open>
  \<open>str.isspace\<close> on the code points below 256: tab, line feed, vertical tab, form
  feed, carriage return, the four separators 28 to 31, space, NEL (133) and the
  no-break space (160).
\<close>

definition isspace :: "char \<Rightarrow> bool" where
  "isspace c = (of_char c \<in> {9, 10, 11, 12, 13, 28, 29, 30, 31, 32, 133, 160 :: nat})"

definition strip :: "string \<Rightarrow> string" where
  "strip s = rev (dropWhile isspace (rev (dropWhile isspace s)))"

fun split :: "char \<Rightarrow> string \<Rightarrow> string list" where
  "split sep [] = [[]]"
| "split sep (x # xs) =
     (if x = sep then [] # split sep xs
      else (case split sep xs of
              [] \<Rightarrow> [[x]]
            | w # ws \<Rightarrow> (x # w) # ws))"

definition digit_char :: "nat \<Rightarrow> char" where
  "digit_char d = char_of (of_char (CHR ''0'') + d)"

fun str_nat :: "nat \<Rightarrow> string" where
  "str_nat n = (if n < 10 then [digit_char n] else str_nat (n div 10) @ [digit_char (n mod 10)])"

declare str_nat.simps [simp del]

section \<open>Exceptions\<close>

text \<open>
  The exception classes that the \<open>except\<close> clauses of the sources tell apart.
  \<open>ModuleNotFoundError\<close> is a subclass of \<open>ImportError\<close>; \<open>SystemExit\<close> stands for
  the classes that derive from \<open>BaseException\<close> but not from \<open>Exception\<close>. An
  exception value carries its class and its message (\<open>str(e)\<close>).
\<close>

datatype exc_type =
    ImportError
  | ModuleNotFoundError
  | FileNotFoundError
  | PermissionError
  | AttributeError
  | TypeError
  | ValueError
  | HTTPError
  | ConnectionError
  | RecursionError
  | SystemExit

type_synonym exc = "exc_type \<times> string"

fun isinstance_ImportError :: "exc \<Rightarrow> bool" where
  "isinstance_ImportError (ImportError, _) = True"
| "isinstance_ImportError (ModuleNotFoundError, _) = True"
| "isinstance_ImportError _ = False"

fun isinstance_FileNotFoundError :: "exc \<Rightarrow> bool" where
  "isinstance_FileNotFoundError (FileNotFoundError, _) = True"
| "isinstance_FileNotFoundError _ = False"

fun isinstance_Exception :: "exc \<Rightarrow> bool" where
  "isinstance_Exception (SystemExit, _) = False"
| "isinstance_Exception _ = True"

section \<open>Python objects, modules and dictionaries\<close>

text \<open>
  A dictionary is an association list with distinct keys in insertion order.
  \<open>dict_set\<close> is the assignment \<open>d[k] = v\<close>: an existing key keeps its position and
  gets the new value, a new key goes to the end.
\<close>

type_synonym ('k, 'v) dict = "('k \<times> 'v) list"

fun dict_set :: "'k \<Rightarrow> 'v \<Rightarrow> ('k, 'v) dict \<Rightarrow> ('k, 'v) dict" where
  "dict_set k v [] = [(k, v)]"
| "dict_set k v ((k', v') # d) =
     (if k' = k then (k, v) # d else (k', v') # dict_set k v d)"

fun dict_get :: "('k, 'v) dict \<Rightarrow> 'k \<Rightarrow> 'v option" where
  "dict_get [] k = None"
| "dict_get ((k', v') # d) k = (if k' = k then Some v' else dict_get d k)"

definition keys :: "('k, 'v) dict \<Rightarrow> 'k list" where
  "keys d = map fst d"

text \<open>
  What the loader looks at in an attribute of a module: its identity, whether it is
  callable, its \<open>__name__\<close> (absent on callables such as \<open>functools.partial\<close>
  objects), and the keyword dictionary that the \<open>tool_definition\<close> decorator
  attached, if any.
\<close>

record pyobj =
  obj_id :: nat
  is_callable :: bool
  dunder_name :: "string option"
  tool_definition :: "(string, string) dict option"

text \<open>
  A module: its \<open>__file__\<close> (absent on built-in modules and namespace packages)
  and its attributes in the order of \<open>dir(module)\<close>.
\<close>

record pymodule =
  dunder_file :: "string option"
  dir_attrs :: "(string \<times> pyobj) list"

section \<open>The process state\<close>

datatype log_level = INFO | ERROR

type_synonym log_record = "log_level \<times> string"

record ToolRegistry =
  registered_tools :: "(string, pyobj) dict"
  tool_modules :: "pymodule list"
  mcp :: "pyobj list"

definition ToolRegistry_init :: ToolRegistry where
  "ToolRegistry_init = \<lparr>registered_tools = [], tool_modules = [], mcp = []\<rparr>"

text \<open>
  The process state that the loader touches. Three fields are what Python code can
  see and change: the global \<open>tool_registry\<close>, the records written to \<open>logger\<close>,
  and the module cache \<open>sys.modules\<close>. Two fields are traces kept for the
  statements below and invisible to Python code: \<open>import_calls\<close>, the module names
  passed to \<open>importlib.import_module\<close> by the functions of \<open>app\<close> and
  \<open>app.tool_loader\<close>, and \<open>executed\<close>, the modules whose top-level code these
  calls ran, each with whether the run finished (\<open>True\<close>) or raised (\<open>False\<close>).
\<close>

record state =
  tool_registry :: ToolRegistry
  logger :: "log_record list"
  sys_modules :: "(string, pymodule) dict"
  import_calls :: "string list"
  executed :: "(string \<times> bool) list"

definition state_init :: state where
  "state_init = \<lparr>tool_registry = ToolRegistry_init, logger = [], sys_modules = [],
                  import_calls = [], executed = []\<rparr>"

definition logger_info :: "string \<Rightarrow> state \<Rightarrow> state" where
  "logger_info msg s = s\<lparr>logger := logger s @ [(INFO, msg)]\<rparr>"

definition logger_error :: "string \<Rightarrow> state \<Rightarrow> state" where
  "logger_error msg s = s\<lparr>logger := logger s @ [(ERROR, msg)]\<rparr>"

definition loaded :: "state \<Rightarrow> string \<Rightarrow> bool" where
  "loaded s name = (dict_get (sys_modules s) name \<noteq> None)"

section \<open>The host: interpreter, file system, libraries\<close>

text \<open>
  What BeautifulSoup gives for a page. A \<open>tag\<close> is a tag that \<open>soup.find\<close>
  returned, with the outcome of its \<open>get_text("\\n", strip=True)\<close> and of
  \<open>str(tag)\<close>: each returns a string or raises. A \<open>soup\<close> holds \<open>soup.title\<close>
  (absent, or present with the outcome of \<open>.string\<close>, which may be \<open>None\<close>), the
  four candidates for the main content, and the \<open>a\<close> tags that have an \<open>href\<close>,
  each as its \<open>href\<close> and the outcome of its \<open>get_text()\<close>.
\<close>

record tag =
  get_text :: "exc + string"
  to_str :: "exc + string"

record soup =
  soup_title :: "(exc + string option) option"
  find_main :: "tag option"
  find_article :: "tag option"
  find_div_content :: "tag option"
  find_body :: "tag option"
  anchors :: "(string \<times> (exc + string)) list"

record response =
  status_code :: nat
  resp_text :: string

text \<open>
  The parts of the environment that the sources call and that are not code of the
  repository.

  \<open>host_import name s\<close> is what the import system does for a module that is not
  in \<open>sys.modules\<close>: it runs the top-level code of the module (and of whatever
  that code imports) in the state \<open>s\<close> and either returns the module object or
  raises; the state it returns carries what that code did, such as calls of
  \<open>tool_registry.register_tool\<close>, log records, and further entries of
  \<open>sys.modules\<close>.

  \<open>host_listdir\<close> is \<open>os.listdir\<close>, \<open>environ\<close> is \<open>os.environ\<close>,
  \<open>fastmcp_tool\<close> is what \<open>FastMCP.tool()(func)\<close> raises (nothing when it
  accepts the function), \<open>session_get\<close> is \<open>requests.Session.get\<close>,
  \<open>beautiful_soup\<close> is \<open>BeautifulSoup(text, "html.parser")\<close>, and \<open>urljoin\<close> is
  \<open>urllib.parse.urljoin\<close>.
\<close>

record host =
  environ :: "string \<Rightarrow> string option"
  host_import :: "string \<Rightarrow> state \<Rightarrow> (exc + pymodule) \<times> state"
  host_listdir :: "string \<Rightarrow> exc + string list"
  fastmcp_tool :: "pyobj \<Rightarrow> exc option"
  session_get :: "string \<Rightarrow> exc + response"
  beautiful_soup :: "string \<Rightarrow> exc + soup"
  urljoin :: "string \<Rightarrow> string \<Rightarrow> string"

section \<open>app: the tool registry\<close>

text \<open>
  \<open>importlib.import_module\<close>. A module that is in \<open>sys.modules\<close> is returned as
  it is and no code runs. Otherwise the top-level code of the module runs; when it
  finishes, the module is entered in \<open>sys.modules\<close>; when it raises, the exception
  goes to the caller and what the code did before stays done.
\<close>

definition import_module :: "host \<Rightarrow> string \<Rightarrow> state \<Rightarrow> (exc + pymodule) \<times> state" where
  "import_module h name s =
     (let s0 = s\<lparr>import_calls := import_calls s @ [name]\<rparr>
      in case dict_get (sys_modules s0) name of
           Some m \<Rightarrow> (Inr m, s0)
         | None \<Rightarrow>
             (case host_import h name s0 of
                (Inl e, s1) \<Rightarrow>
                  (Inl e, s1\<lparr>import_calls := import_calls s0,
                              executed := executed s0 @ [(name, False)]\<rparr>)
              | (Inr m, s1) \<Rightarrow>
                  (Inr m, s1\<lparr>sys_modules := dict_set name m (sys_modules s1),
                              import_calls := import_calls s0,
                              executed := executed s0 @ [(name, True)]\<rparr>)))"

text \<open>
  \<open>ToolRegistry.register_tool\<close>. \<open>name or func.__name__\<close> takes \<open>__name__\<close> when
  \<open>name\<close> is \<open>None\<close> or empty, and raises \<open>AttributeError\<close> when the callable has
  none. The dictionary is assigned before the function is handed to FastMCP.
\<close>

definition register_tool ::
  "host \<Rightarrow> pyobj \<Rightarrow> string option \<Rightarrow> ToolRegistry \<Rightarrow> (exc + pyobj) \<times> ToolRegistry" where
  "register_tool h func name r =
     (case (case name of
              Some n \<Rightarrow> (if n \<noteq> [] then Some n else dunder_name func)
            | None \<Rightarrow> dunder_name func) of
        None \<Rightarrow> (Inl (AttributeError, ''object has no attribute __name__''), r)
      | Some tool_name \<Rightarrow>
          (let r1 = r\<lparr>registered_tools := dict_set tool_name func (registered_tools r)\<rparr>
           in case fastmcp_tool h func of
                Some e \<Rightarrow> (Inl e, r1)
              | None \<Rightarrow> (Inr func, r1\<lparr>mcp := mcp r1 @ [func]\<rparr>)))"

text \<open>
  The loop of \<open>load_tools_from_module\<close> over \<open>dir(module)\<close>: it stops at the first
  exception, keeping what it has registered.
\<close>

fun register_attrs ::
  "host \<Rightarrow> (string \<times> pyobj) list \<Rightarrow> ToolRegistry \<Rightarrow> exc option \<times> ToolRegistry" where
  "register_attrs h [] r = (None, r)"
| "register_attrs h ((attr_name, attr) # rest) r =
     (case (if is_callable attr then tool_definition attr else None) of
        None \<Rightarrow> register_attrs h rest r
      | Some td \<Rightarrow>
          (case register_tool h attr (dict_get td ''name'') r of
             (Inl e, r1) \<Rightarrow> (Some e, r1)
           | (Inr _, r1) \<Rightarrow> register_attrs h rest r1))"

definition load_tools_from_module :: "host \<Rightarrow> string \<Rightarrow> state \<Rightarrow> (exc + unit) \<times> state" where
  "load_tools_from_module h module_name s =
     (case import_module h module_name s of
        (Inl e, s1) \<Rightarrow>
          (if isinstance_ImportError e
           then (Inr (), logger_error (''Error loading tool module '' @ module_name @ '': '' @ snd e) s1)
           else (Inl e, s1))
      | (Inr module, s1) \<Rightarrow>
          (let r1 = (tool_registry s1)\<lparr>tool_modules := tool_modules (tool_registry s1) @ [module]\<rparr>
           in case register_attrs h (dir_attrs module) r1 of
                (Some e, r2) \<Rightarrow>
                  (if isinstance_ImportError e
                   then (Inr (), logger_error (''Error loading tool module '' @ module_name @ '': '' @ snd e)
                                   (s1\<lparr>tool_registry := r2\<rparr>))
                   else (Inl e, s1\<lparr>tool_registry := r2\<rparr>))
              | (None, r2) \<Rightarrow>
                  (Inr (), logger_info (''Loaded tools from module: '' @ module_name)
                             (s1\<lparr>tool_registry := r2\<rparr>))))"

section \<open>app.tool_loader\<close>

text \<open>
  The loop of \<open>load_tool_modules\<close>. \<open>except Exception\<close> lets the classes outside
  \<open>Exception\<close> through.
\<close>

fun load_loop :: "host \<Rightarrow> string list \<Rightarrow> nat \<Rightarrow> state \<Rightarrow> (exc + nat) \<times> state" where
  "load_loop h [] loaded_count s = (Inr loaded_count, s)"
| "load_loop h (module_path # rest) loaded_count s =
     (case load_tools_from_module h (strip module_path) s of
        (Inr _, s1) \<Rightarrow> load_loop h rest (loaded_count + 1) s1
      | (Inl e, s1) \<Rightarrow>
          (if isinstance_Exception e
           then load_loop h rest loaded_count
                  (logger_error (''Failed to load tool module '' @ module_path @ '': '' @ snd e) s1)
           else (Inl e, s1)))"

definition default_tool_modules :: string where
  "default_tool_modules = ''app.tools.http_tools,app.tools.web_tools,app.tools.api_tools''"

definition env_module_paths :: "host \<Rightarrow> string list" where
  "env_module_paths h =
     (let module_paths_str =
            (case environ h ''MCP_TOOL_MODULES'' of
               None \<Rightarrow> default_tool_modules
             | Some v \<Rightarrow> v)
      in if module_paths_str \<noteq> [] then split (CHR '','') module_paths_str else [])"

definition load_tool_modules :: "host \<Rightarrow> string list option \<Rightarrow> state \<Rightarrow> (exc + nat) \<times> state" where
  "load_tool_modules h module_paths s =
     (let paths = (case module_paths of None \<Rightarrow> env_module_paths h | Some ps \<Rightarrow> ps)
      in case load_loop h paths 0 s of
           (Inl e, s1) \<Rightarrow> (Inl e, s1)
         | (Inr loaded_count, s1) \<Rightarrow>
             (Inr loaded_count,
              logger_info (''Loaded '' @ str_nat loaded_count @ '' tool modules'') s1))"

text \<open>\<open>inspect.getfile\<close> of a module, and \<open>os.path.dirname\<close> (POSIX).\<close>

definition getfile :: "pymodule \<Rightarrow> exc + string" where
  "getfile m =
     (case dunder_file m of
        None \<Rightarrow> Inl (TypeError, ''is a built-in module'')
      | Some f \<Rightarrow> Inr f)"

definition dirname :: "string \<Rightarrow> string" where
  "dirname p =
     (let head = rev (dropWhile (\<lambda>c. c \<noteq> CHR ''/'') (rev p))
      in if head \<noteq> [] \<and> head \<noteq> replicate (length head) (CHR ''/'')
         then rstrip_char (CHR ''/'') head else head)"

fun scan_files :: "string \<Rightarrow> string list \<Rightarrow> string list \<Rightarrow> string list" where
  "scan_files package_path [] discovered_modules = discovered_modules"
| "scan_files package_path (file # rest) discovered_modules =
     (if endswith file ''.py'' \<and> \<not> startswith file ''__''
      then scan_files package_path rest
             (discovered_modules @ [package_path @ ''.'' @ take (length file - 3) file])
      else scan_files package_path rest discovered_modules)"

definition discover_except :: "string \<Rightarrow> exc \<Rightarrow> state \<Rightarrow> (exc + string list) \<times> state" where
  "discover_except package_path e s =
     (if isinstance_ImportError e \<or> isinstance_FileNotFoundError e
      then (Inr [], logger_error (''Error discovering modules in '' @ package_path @ '': '' @ snd e) s)
      else (Inl e, s))"

definition discover_tool_modules :: "host \<Rightarrow> string \<Rightarrow> state \<Rightarrow> (exc + string list) \<times> state" where
  "discover_tool_modules h package_path s =
     (case import_module h package_path s of
        (Inl e, s1) \<Rightarrow> discover_except package_path e s1
      | (Inr package, s1) \<Rightarrow>
          (case getfile package of
             Inl e \<Rightarrow> discover_except package_path e s1
           | Inr f \<Rightarrow>
               (case host_listdir h (dirname f) of
                  Inl e \<Rightarrow> discover_except package_path e s1
                | Inr files \<Rightarrow>
                    (let discovered_modules = scan_files package_path files []
                     in (Inr discovered_modules,
                         logger_info (''Discovered '' @ str_nat (length discovered_modules)
                                        @ '' tool modules in '' @ package_path) s1)))))"

definition auto_discover_and_load_tools :: "host \<Rightarrow> state \<Rightarrow> (exc + nat) \<times> state" where
  "auto_discover_and_load_tools h s =
     (case discover_tool_modules h ''app.tools'' s of
        (Inl e, s1) \<Rightarrow> (Inl e, s1)
      | (Inr module_paths, s1) \<Rightarrow> load_tool_modules h (Some module_paths) s1)"

section \<open>app.tools.api_tools\<close>

record APIClient =
  base_url :: string
  api_key :: string
  api_key_header :: string

definition is_absolute :: "string \<Rightarrow> bool" where
  "is_absolute url = (startswith url ''http://'' \<or> startswith url ''https://'')"

definition build_url :: "APIClient \<Rightarrow> string \<Rightarrow> string" where
  "build_url self endpoint =
     (if is_absolute endpoint then endpoint
      else (let base = rstrip_char (CHR ''/'') (base_url self);
                clean_endpoint = lstrip_char (CHR ''/'') endpoint
            in base @ ''/'' @ clean_endpoint))"

section \<open>app.tools.web_tools\<close>

record WebNavigator =
  current_url :: "string option"
  history :: "string list"

definition WebNavigator_init :: WebNavigator where
  "WebNavigator_init = \<lparr>current_url = None, history = []\<rparr>"















section \<open>The attempts of one loading pass\<close>

text \<open>
  The outcome of each call of \<open>load_tools_from_module\<close> that \<open>load_tool_modules\<close>
  makes on a list of module paths, in order, with the state threaded through as
  the loop does. It says what "the load attempt did not raise" means for the
  count that \<open>load_tool_modules\<close> returns.
\<close>

fun load_attempts :: "host \<Rightarrow> string list \<Rightarrow> state \<Rightarrow> (exc + unit) list" where
  "load_attempts h [] s = []"
| "load_attempts h (module_path # rest) s =
     (case load_tools_from_module h (strip module_path) s of
        (Inr u, s1) \<Rightarrow> Inr u # load_attempts h rest s1
      | (Inl e, s1) \<Rightarrow>
          Inl e # load_attempts h rest
            (logger_error (''Failed to load tool module '' @ module_path @ '': '' @ snd e) s1))"

definition returned :: "(exc + 'a) \<Rightarrow> bool" where
  "returned x = (case x of Inl _ \<Rightarrow> False | Inr _ \<Rightarrow> True)"

definition tagged :: "string \<times> pyobj \<Rightarrow> bool" where
  "tagged a = (is_callable (snd a) \<and> tool_definition (snd a) \<noteq> None)"

section \<open>Runs of module code\<close>

text \<open>
  A trace of runs in which a module whose run finished is not run again: every
  later run of the same module follows only runs of it that raised.
\<close>

fun rerun_only_after_failure :: "(string \<times> bool) list \<Rightarrow> bool" where
  "rerun_only_after_failure [] = True"
| "rerun_only_after_failure ((name, finished) # rest) =
     ((finished \<longrightarrow> name \<notin> set (map fst rest)) \<and> rerun_only_after_failure rest)"

definition trace_ok :: "(string \<times> bool) list \<Rightarrow> state \<Rightarrow> bool" where
  "trace_ok xs s = (rerun_only_after_failure xs \<and> (\<forall>x \<in> set xs. snd x \<longrightarrow> loaded s (fst x)))"

section \<open>A concrete installation\<close>

text \<open>
  The package \<open>app.tools\<close> in the directory \<open>/srv/app/tools\<close> with the files
  \<open>a.py\<close> (one function \<open>foo\<close> carrying a tool definition), \<open>b.py\<close> (one plain
  function) and \<open>__init__.py\<close>; the top-level code of these three only defines
  their attributes. A fourth module, \<open>app.tools.early\<close>, calls
  \<open>tool_registry.register_tool(early)\<close> at top level and then fails on an
  \<open>import\<close> of a package that is not installed. The variable
  \<open>MCP_TOOL_MODULES\<close> is set to \<open>app.tools.a, x.only\<close>; FastMCP accepts every
  function. Two pages can be fetched; for the second, \<open>str(main_content)\<close> raises.
\<close>

definition ex_foo :: pyobj where
  "ex_foo = \<lparr>obj_id = 1, is_callable = True, dunder_name = Some ''foo'',
             tool_definition = Some [(''name'', ''foo''), (''description'', ''Foo'')]\<rparr>"

definition ex_ping :: pyobj where
  "ex_ping = \<lparr>obj_id = 2, is_callable = True, dunder_name = Some ''ping'',
              tool_definition = None\<rparr>"

definition ex_foo2 :: pyobj where
  "ex_foo2 = \<lparr>obj_id = 3, is_callable = True, dunder_name = Some ''other'',
              tool_definition = None\<rparr>"

definition ex_doc :: pyobj where
  "ex_doc = \<lparr>obj_id = 4, is_callable = False, dunder_name = None, tool_definition = None\<rparr>"

definition ex_early :: pyobj where
  "ex_early = \<lparr>obj_id = 5, is_callable = True, dunder_name = Some ''early'',
               tool_definition = None\<rparr>"

definition ex_module_a :: pymodule where
  "ex_module_a = \<lparr>dunder_file = Some ''/srv/app/tools/a.py'',
                  dir_attrs = [(''__doc__'', ex_doc), (''foo'', ex_foo)]\<rparr>"

definition ex_module_b :: pymodule where
  "ex_module_b = \<lparr>dunder_file = Some ''/srv/app/tools/b.py'',
                  dir_attrs = [(''__doc__'', ex_doc), (''ping'', ex_ping)]\<rparr>"

definition ex_package :: pymodule where
  "ex_package = \<lparr>dunder_file = Some ''/srv/app/tools/__init__.py'',
                 dir_attrs = [(''__doc__'', ex_doc)]\<rparr>"

definition ex_soup :: soup where
  "ex_soup = \<lparr>soup_title = Some (Inr (Some ''Example'')),
              find_main = None, find_article = None, find_div_content = None,
              find_body = Some \<lparr>get_text = Inr ''Hello'', to_str = Inr ''<body>Hello</body>''\<rparr>,
              anchors = [(''/next'', Inr '' Next ''), (''/empty'', Inr '' '')]\<rparr>"

definition ex_soup_deep :: soup where
  "ex_soup_deep = \<lparr>soup_title = Some (Inr (Some ''Deep'')),
              find_main = None, find_article = None, find_div_content = None,
              find_body = Some \<lparr>get_text = Inr ''Deep'',
                                to_str = Inl (RecursionError, ''maximum recursion depth exceeded'')\<rparr>,
              anchors = []\<rparr>"

definition ex_host :: host where
  "ex_host =
     \<lparr>environ = (\<lambda>k. if k = ''MCP_TOOL_MODULES'' then Some ''app.tools.a, x.only'' else None),
      host_import = (\<lambda>name s.
         if name = ''app.tools'' then (Inr ex_package, s)
         else if name = ''app.tools.a'' then (Inr ex_module_a, s)
         else if name = ''app.tools.b'' then (Inr ex_module_b, s)
         else if name = ''app.tools.early''
         then (Inl (ModuleNotFoundError, ''No module named missing_dependency''),
               s\<lparr>tool_registry := (tool_registry s)
                    \<lparr>registered_tools := dict_set ''early'' ex_early
                                            (registered_tools (tool_registry s)),
                     mcp := mcp (tool_registry s) @ [ex_early]\<rparr>\<rparr>)
         else (Inl (ModuleNotFoundError, ''No module named '' @ name), s)),
      host_listdir = (\<lambda>d.
         if d = ''/srv/app/tools'' then Inr [''a.py'', ''b.py'', ''__init__.py'']
         else Inl (FileNotFoundError, ''No such file or directory: '' @ d)),
      fastmcp_tool = (\<lambda>f. None),
      session_get = (\<lambda>url.
         if url = ''https://example.com/'' then Inr \<lparr>status_code = 200, resp_text = ''ok''\<rparr>
         else if url = ''https://example.com/deep''
         then Inr \<lparr>status_code = 200, resp_text = ''deep''\<rparr>
         else Inl (ConnectionError, ''Failed to resolve '' @ url)),
      beautiful_soup = (\<lambda>t. if t = ''deep'' then Inr ex_soup_deep else Inr ex_soup),
      urljoin = (\<lambda>b u. b @ u)\<rparr>"

text \<open>The same installation with the directory of the package removed.\<close>

definition ex_host_nodir :: host where
  "ex_host_nodir = ex_host\<lparr>host_listdir :=
     (\<lambda>d. Inl (FileNotFoundError, ''No such file or directory: '' @ d))\<rparr>"

section \<open>Properties\<close>

subsection \<open>Dictionaries and the registry\<close>

lemma dict_get_set_same: "dict_get (dict_set k v d) k = Some v"
  by (induction d) auto

lemma dict_get_set_other: "k' \<noteq> k \<Longrightarrow> dict_get (dict_set k v d) k' = dict_get d k'"
  by (induction d) auto

lemma keys_dict_set:
  "keys (dict_set k v d) = (if k \<in> set (keys d) then keys d else keys d @ [k])"
  by (induction d) (force simp: keys_def)+

lemma distinct_dict_set: "distinct (keys d) \<Longrightarrow> distinct (keys (dict_set k v d))"
  by (simp add: keys_dict_set)

lemma dict_set_at:
  "distinct (keys d) \<Longrightarrow> i < length d \<Longrightarrow> fst (d ! i) = k \<Longrightarrow> dict_set k v d = d[i := (k, v)]"
proof (induction d arbitrary: i)
  case Nil
  then show ?case by simp
next
  case (Cons p d)
  obtain k' v' where p: "p = (k', v')" by (cases p)
  show ?case
  proof (cases i)
    case 0
    with Cons.prems p show ?thesis by simp
  next
    case (Suc j)
    with Cons.prems p have "k' \<noteq> k" by (auto simp: keys_def)
    with Cons Suc p show ?thesis by (simp add: keys_def)
  qed
qed

lemma registered_after_register:
  "registered_tools (snd (register_tool h f name r)) =
     (case (case name of Some n \<Rightarrow> (if n \<noteq> [] then Some n else dunder_name f) | None \<Rightarrow> dunder_name f) of
        None \<Rightarrow> registered_tools r
      | Some t \<Rightarrow> dict_set t f (registered_tools r))"
  by (simp add: register_tool_def Let_def split: option.splits)

lemma register_tool_distinct:
  "distinct (keys (registered_tools r)) \<Longrightarrow>
   distinct (keys (registered_tools (snd (register_tool h f name r))))"
  by (simp add: registered_after_register distinct_dict_set split: option.splits)

lemma register_calls_distinct:
  "distinct (keys (registered_tools r)) \<Longrightarrow>
   distinct (keys (registered_tools (fold (\<lambda>(f, name) r. snd (register_tool h f name r)) calls r)))"
  by (induction calls arbitrary: r) (auto simp: register_tool_distinct)

text \<open>
  Claim C8. Registering a handler with the name omitted stores it under its own
  \<open>__name__\<close>: afterwards the registry maps that name to the very handler, the
  name is at its old position or new at the end, and the call returns the handler
  whenever FastMCP accepts it.
\<close>
theorem register_tool_name_omitted:
  assumes "dunder_name handler = Some n"
  shows "dict_get (registered_tools (snd (register_tool h handler None r))) n = Some handler
         \<and> keys (registered_tools (snd (register_tool h handler None r)))
             = (if n \<in> set (keys (registered_tools r)) then keys (registered_tools r)
                else keys (registered_tools r) @ [n])
         \<and> (fastmcp_tool h handler = None \<longrightarrow> fst (register_tool h handler None r) = Inr handler)"
  using assms
  by (simp add: registered_after_register dict_get_set_same keys_dict_set)
     (simp add: register_tool_def)

text \<open>
  Claim C7. After any sequence of \<open>register_tool\<close> calls on a fresh registry the
  names in \<open>registered_tools\<close> are pairwise distinct. Registering a handler under
  a name that is already at position \<open>i\<close> replaces the entry at position \<open>i\<close>
  and changes nothing else, so the name keeps its place and the names stay
  distinct; the call returns the handler whenever FastMCP accepts it.
\<close>
theorem register_tool_overwrite:
  assumes "r = fold (\<lambda>(g, name) r. snd (register_tool h g name r)) calls ToolRegistry_init"
      and "i < length (registered_tools r)"
      and "fst (registered_tools r ! i) = n"
      and "n \<noteq> []"
  shows "distinct (keys (registered_tools r))
         \<and> registered_tools (snd (register_tool h f (Some n) r)) = (registered_tools r)[i := (n, f)]
         \<and> distinct (keys (registered_tools (snd (register_tool h f (Some n) r))))
         \<and> (fastmcp_tool h f = None \<longrightarrow> fst (register_tool h f (Some n) r) = Inr f)"
proof -
  have d: "distinct (keys (registered_tools r))"
    unfolding assms(1) by (rule register_calls_distinct) (simp add: ToolRegistry_init_def keys_def)
  have u: "registered_tools (snd (register_tool h f (Some n) r)) = (registered_tools r)[i := (n, f)]"
    using assms(2-4) d by (simp add: registered_after_register dict_set_at)
  have e: "fastmcp_tool h f = None \<longrightarrow> fst (register_tool h f (Some n) r) = Inr f"
    using assms(4) by (simp add: register_tool_def)
  have d': "distinct (keys (registered_tools (snd (register_tool h f (Some n) r))))"
    by (rule register_tool_distinct [OF d])
  from d u e d' show ?thesis by blast
qed


subsection \<open>Imports\<close>

lemma import_module_calls:
  "import_calls (snd (import_module h name s)) = import_calls s @ [name]"
  by (simp add: import_module_def Let_def split: option.splits prod.splits sum.splits)

lemma import_module_loaded:
  "loaded s name \<Longrightarrow> snd (import_module h name s) = s\<lparr>import_calls := import_calls s @ [name]\<rparr>"
  by (auto simp: import_module_def loaded_def Let_def)

lemma import_module_executed:
  "executed (snd (import_module h name s))
     = executed s @ (if loaded s name then [] else [(name, returned (fst (import_module h name s)))])"
  by (auto simp: import_module_def loaded_def returned_def Let_def
           split: option.splits prod.splits sum.splits)

lemma dict_get_set: "dict_get (dict_set k v d) k' = (if k' = k then Some v else dict_get d k')"
  by (induction d) auto

lemma import_module_keeps_loaded:
  assumes "\<forall>name t k. loaded t k \<longrightarrow> loaded (snd (host_import h name t)) k"
      and "loaded s k"
  shows "loaded (snd (import_module h name s)) k"
proof (cases "dict_get (sys_modules s) name")
  case (Some m)
  with assms(2) show ?thesis by (simp add: import_module_def loaded_def Let_def)
next
  case None
  let ?s0 = "s\<lparr>import_calls := import_calls s @ [name]\<rparr>"
  have "loaded ?s0 k" using assms(2) by (simp add: loaded_def)
  with assms(1) have l: "loaded (snd (host_import h name ?s0)) k" by blast
  obtain res s1 where r: "host_import h name ?s0 = (res, s1)" by (cases "host_import h name ?s0")
  with l have "loaded s1 k" by simp
  with None r show ?thesis
    by (cases res) (simp_all add: import_module_def loaded_def Let_def dict_get_set)
qed

lemma import_module_returned_loaded:
  "fst (import_module h name s) = Inr m \<Longrightarrow> loaded (snd (import_module h name s)) name"
  by (auto simp: import_module_def loaded_def Let_def dict_get_set
           split: option.splits prod.splits sum.splits)

text \<open>
  Claim C5, as amended. When the import of the module raises \<open>ImportError\<close> (or a
  subclass), \<open>load_tools_from_module\<close> returns normally and adds one error record
  naming the module to the state that the failed import left: it registers
  nothing itself and undoes nothing, so the registry after the call is the
  registry as the module's top-level code left it before it raised.
\<close>

theorem load_tools_import_error_keeps_import_state:
  assumes "fst (import_module h module_name s) = Inl e" and "isinstance_ImportError e"
  shows "fst (load_tools_from_module h module_name s) = Inr ()
         \<and> snd (load_tools_from_module h module_name s)
             = logger_error (''Error loading tool module '' @ module_name @ '': '' @ snd e)
                 (snd (import_module h module_name s))
         \<and> tool_registry (snd (load_tools_from_module h module_name s))
             = tool_registry (snd (import_module h module_name s))
         \<and> logger (snd (load_tools_from_module h module_name s))
             = logger (snd (import_module h module_name s))
                 @ [(ERROR, ''Error loading tool module '' @ module_name @ '': '' @ snd e)]"
proof -
  obtain s1 where i: "import_module h module_name s = (Inl e, s1)"
    using assms(1) by (cases "import_module h module_name s") simp
  with assms(2) show ?thesis
    by (simp add: load_tools_from_module_def logger_error_def)
qed

subsection \<open>Discovery\<close>

lemma scan_files_eq:
  "scan_files p files acc =
     acc @ map (\<lambda>file. p @ ''.'' @ take (length file - 3) file)
             (filter (\<lambda>file. endswith file ''.py'' \<and> \<not> startswith file ''__'') files)"
  by (induction files arbitrary: acc) auto

lemma endswith_py_take: "endswith file ''.py'' \<Longrightarrow> take (length file - 3) file @ ''.py'' = file"
proof -
  assume a: "endswith file ''.py''"
  then have "drop (length file - 3) file = ''.py''" by (simp add: endswith_def numeral_3_eq_3)
  then have "take (length file - 3) file @ ''.py'' = take (length file - 3) file @ drop (length file - 3) file"
    by simp
  then show ?thesis by (simp only: append_take_drop_id)
qed

lemma discover_listing:
  assumes "fst (import_module h package_path s) = Inr package"
      and "dunder_file package = Some f"
      and "host_listdir h (dirname f) = Inr files"
  shows "fst (discover_tool_modules h package_path s) = Inr (scan_files package_path files [])"
proof -
  obtain s1 where "import_module h package_path s = (Inr package, s1)"
    using assms(1) by (cases "import_module h package_path s") simp
  with assms(2,3) show ?thesis
    by (simp add: discover_tool_modules_def getfile_def Let_def)
qed

text \<open>
  Claim C1. When the package imports, has a file, and its directory lists as
  \<open>files\<close>, \<open>discover_tool_modules\<close> returns one module path for each listed
  name that ends in \<open>.py\<close> and does not begin with \<open>__\<close>, in listing order and
  no others: the result has as many entries as there are such names, and the
  \<open>i\<close>-th path followed by \<open>.py\<close> is the package path, a dot, and the \<open>i\<close>-th
  such name.
\<close>

theorem discover_one_path_per_source_file:
  assumes "fst (import_module h package_path s) = Inr package"
      and "dunder_file package = Some f"
      and "host_listdir h (dirname f) = Inr files"
      and "sources = filter (\<lambda>file. endswith file ''.py'' \<and> \<not> startswith file ''__'') files"
  shows "\<exists>paths. fst (discover_tool_modules h package_path s) = Inr paths
           \<and> length paths = length sources
           \<and> (\<forall>i < length sources. paths ! i @ ''.py'' = package_path @ ''.'' @ sources ! i)"
proof -
  let ?paths = "scan_files package_path files []"
  have p: "?paths = map (\<lambda>file. package_path @ ''.'' @ take (length file - 3) file) sources"
    by (simp add: scan_files_eq assms(4))
  have "\<forall>i < length sources. ?paths ! i @ ''.py'' = package_path @ ''.'' @ sources ! i"
  proof (intro allI impI)
    fix i assume i: "i < length sources"
    then have "sources ! i \<in> set sources" by simp
    then have "endswith (sources ! i) ''.py''" by (simp add: assms(4))
    then have "take (length (sources ! i) - 3) (sources ! i) @ ''.py'' = sources ! i"
      by (rule endswith_py_take)
    with i show "?paths ! i @ ''.py'' = package_path @ ''.'' @ sources ! i"
      by (simp add: p)
  qed
  moreover have "length ?paths = length sources" by (simp add: p)
  ultimately show ?thesis using discover_listing [OF assms(1-3)] by blast
qed

text \<open>
  Claim C6. When the package cannot be imported (\<open>ImportError\<close>), or it imports
  but listing its directory raises \<open>FileNotFoundError\<close>,
  \<open>discover_tool_modules\<close> returns the empty list without raising and writes one
  error record with the package path and the message of the exception (after
  whatever the import of the package has logged).
\<close>

theorem discover_missing_returns_empty:
  assumes "(fst (import_module h package_path s) = Inl e \<and> isinstance_ImportError e)
           \<or> (\<exists>package f. fst (import_module h package_path s) = Inr package
                \<and> dunder_file package = Some f
                \<and> host_listdir h (dirname f) = Inl e \<and> isinstance_FileNotFoundError e)"
  shows "fst (discover_tool_modules h package_path s) = Inr []
         \<and> logger (snd (discover_tool_modules h package_path s))
             = logger (snd (import_module h package_path s))
                 @ [(ERROR, ''Error discovering modules in '' @ package_path @ '': '' @ snd e)]"
proof -
  obtain res s1 where i: "import_module h package_path s = (res, s1)"
    by (cases "import_module h package_path s")
  with assms show ?thesis
    by (auto simp: discover_tool_modules_def getfile_def discover_except_def logger_error_def)
qed

lemma discover_other_exception_propagates:
  "fst (import_module h p s) = Inl e \<Longrightarrow> \<not> isinstance_ImportError e
   \<Longrightarrow> \<not> isinstance_FileNotFoundError e
   \<Longrightarrow> fst (discover_tool_modules h p s) = Inl e"
  by (cases "import_module h p s") (simp add: discover_tool_modules_def discover_except_def)

lemma discover_state:
  "\<exists>extra. snd (discover_tool_modules h p s)
             = (snd (import_module h p s))\<lparr>logger := logger (snd (import_module h p s)) @ extra\<rparr>
           \<and> length extra \<le> 1"
proof -
  obtain res s1 where i: "import_module h p s = (res, s1)" by (cases "import_module h p s")
  have "\<exists>extra. snd (discover_tool_modules h p s) = s1\<lparr>logger := logger s1 @ extra\<rparr>
                \<and> length extra \<le> 1"
  proof (cases "\<exists>e. fst (discover_tool_modules h p s) = Inl e")
    case True
    then have "snd (discover_tool_modules h p s) = s1\<lparr>logger := logger s1 @ []\<rparr>"
      using i
      by (auto simp: discover_tool_modules_def getfile_def discover_except_def logger_error_def
                     logger_info_def Let_def split: sum.splits option.splits if_splits)
    then show ?thesis by (intro exI [of _ "[]"]) simp
  next
    case False
    then have "\<exists>r. snd (discover_tool_modules h p s) = s1\<lparr>logger := logger s1 @ [r]\<rparr>"
      using i
      by (auto simp: discover_tool_modules_def getfile_def discover_except_def logger_error_def
                     logger_info_def Let_def split: sum.splits option.splits if_splits)
    then obtain r where "snd (discover_tool_modules h p s) = s1\<lparr>logger := logger s1 @ [r]\<rparr>"
      by blast
    then show ?thesis by (intro exI [of _ "[r]"]) simp
  qed
  with i show ?thesis by simp
qed

subsection \<open>Loading\<close>

lemma register_attrs_tagged:
  "register_attrs h attrs r = register_attrs h (filter tagged attrs) r"
  by (induction h attrs r rule: register_attrs.induct)
     (auto simp: tagged_def split: option.splits sum.splits prod.splits)

lemma load_tools_import_calls:
  "import_calls (snd (load_tools_from_module h m s)) = import_calls s @ [m]"
proof -
  obtain res s1 where i: "import_module h m s = (res, s1)" by (cases "import_module h m s")
  then have "import_calls s1 = import_calls s @ [m]"
    using import_module_calls [of h m s] by simp
  with i show ?thesis
    by (simp add: load_tools_from_module_def logger_error_def logger_info_def Let_def
             split: sum.splits option.splits prod.splits)
qed

lemma load_tools_executed:
  "executed (snd (load_tools_from_module h m s)) = executed (snd (import_module h m s))"
  by (cases "import_module h m s")
     (simp add: load_tools_from_module_def logger_error_def logger_info_def Let_def
           split: sum.splits option.splits prod.splits)

lemma load_tools_sys_modules:
  "sys_modules (snd (load_tools_from_module h m s)) = sys_modules (snd (import_module h m s))"
  by (cases "import_module h m s")
     (simp add: load_tools_from_module_def logger_error_def logger_info_def Let_def
           split: sum.splits option.splits prod.splits)

lemma load_tools_returned_loaded:
  assumes "fst (import_module h m s) = Inr x"
  shows "loaded (snd (load_tools_from_module h m s)) m"
  using import_module_returned_loaded [OF assms]
  by (simp add: loaded_def load_tools_sys_modules)

lemma load_loop_import_calls:
  "fst (load_loop h ps c s) = Inr n \<Longrightarrow>
   import_calls (snd (load_loop h ps c s)) = import_calls s @ map strip ps"
proof (induction ps arbitrary: c s)
  case Nil
  then show ?case by simp
next
  case (Cons p ps)
  obtain res s1 where l: "load_tools_from_module h (strip p) s = (res, s1)"
    by (cases "load_tools_from_module h (strip p) s")
  have i: "import_calls s1 = import_calls s @ [strip p]"
    using load_tools_import_calls [of h "strip p" s] l by simp
  show ?case
  proof (cases res)
    case (Inr u)
    with Cons.prems l have "fst (load_loop h ps (c + 1) s1) = Inr n" by simp
    from Cons.IH [OF this] l Inr i show ?thesis by simp
  next
    case (Inl e)
    show ?thesis
    proof (cases "isinstance_Exception e")
      case True
      let ?s2 = "logger_error (''Failed to load tool module '' @ p @ '': '' @ snd e) s1"
      from Cons.prems l Inl True have "fst (load_loop h ps c ?s2) = Inr n" by simp
      from Cons.IH [OF this] l Inl True i show ?thesis by (simp add: logger_error_def)
    next
      case False
      with Cons.prems l Inl show ?thesis by simp
    qed
  qed
qed

lemma load_loop_count:
  "fst (load_loop h ps c s) = Inr n \<Longrightarrow> n = c + length (filter returned (load_attempts h ps s))"
proof (induction ps arbitrary: c s)
  case Nil
  then show ?case by simp
next
  case (Cons p ps)
  obtain res s1 where l: "load_tools_from_module h (strip p) s = (res, s1)"
    by (cases "load_tools_from_module h (strip p) s")
  show ?case
  proof (cases res)
    case (Inr u)
    with Cons.prems l have "fst (load_loop h ps (c + 1) s1) = Inr n" by simp
    from Cons.IH [OF this] l Inr show ?thesis by (simp add: returned_def)
  next
    case (Inl e)
    show ?thesis
    proof (cases "isinstance_Exception e")
      case True
      let ?s2 = "logger_error (''Failed to load tool module '' @ p @ '': '' @ snd e) s1"
      from Cons.prems l Inl True have "fst (load_loop h ps c ?s2) = Inr n" by simp
      from Cons.IH [OF this] l Inl True show ?thesis by (simp add: returned_def)
    next
      case False
      with Cons.prems l Inl show ?thesis by simp
    qed
  qed
qed

lemma load_tool_modules_fst:
  "fst (load_tool_modules h (Some ps) s) = fst (load_loop h ps 0 s)"
  by (simp add: load_tool_modules_def split: prod.splits sum.splits)

lemma load_tool_modules_import_calls:
  "import_calls (snd (load_tool_modules h (Some ps) s)) = import_calls (snd (load_loop h ps 0 s))"
  by (simp add: load_tool_modules_def logger_info_def split: prod.splits sum.splits)

lemma load_tool_modules_executed:
  "executed (snd (load_tool_modules h (Some ps) s)) = executed (snd (load_loop h ps 0 s))"
  by (simp add: load_tool_modules_def logger_info_def split: prod.splits sum.splits)

lemma auto_unfold:
  "fst (discover_tool_modules h ''app.tools'' s) = Inr paths \<Longrightarrow>
   auto_discover_and_load_tools h s
     = load_tool_modules h (Some paths) (snd (discover_tool_modules h ''app.tools'' s))"
  by (cases "discover_tool_modules h ''app.tools'' s") (simp add: auto_discover_and_load_tools_def)

subsection \<open>Runs of module code\<close>

lemma rerun_append:
  "rerun_only_after_failure (xs @ [(name, finished)])
     = (rerun_only_after_failure xs \<and> (name, True) \<notin> set xs)"
  by (induction xs) (auto simp: image_iff)

lemma trace_ok_logger [simp]: "trace_ok xs (logger_error msg s) = trace_ok xs s"
  by (simp add: trace_ok_def loaded_def logger_error_def)

lemma load_tools_step:
  assumes H: "\<forall>name t k. loaded t k \<longrightarrow> loaded (snd (host_import h name t)) k"
      and ok: "trace_ok xs s"
  shows "\<exists>ys. executed (snd (load_tools_from_module h m s)) = executed s @ ys
           \<and> trace_ok (xs @ ys) (snd (load_tools_from_module h m s))
           \<and> fst ` set ys \<subseteq> {m}
           \<and> (\<forall>k. loaded s k \<longrightarrow> loaded (snd (load_tools_from_module h m s)) k
                                    \<and> k \<notin> fst ` set ys)"
proof -
  let ?s' = "snd (load_tools_from_module h m s)"
  let ?ys = "if loaded s m then [] else [(m, returned (fst (import_module h m s)))]"
  have e: "executed ?s' = executed s @ ?ys"
    by (simp add: load_tools_executed import_module_executed)
  have k: "loaded ?s' k" if "loaded s k" for k
    using import_module_keeps_loaded [OF H that, of m]
    by (simp add: loaded_def load_tools_sys_modules)
  have t: "trace_ok (xs @ ?ys) ?s'"
  proof (cases "loaded s m")
    case True
    with ok k show ?thesis by (auto simp: trace_ok_def)
  next
    case False
    have n: "(m, True) \<notin> set xs"
    proof
      assume "(m, True) \<in> set xs"
      with ok have "loaded s m" by (auto simp: trace_ok_def)
      with False show False by simp
    qed
    have r: "returned (fst (import_module h m s)) \<Longrightarrow> loaded ?s' m"
      using load_tools_returned_loaded [of h m s]
      by (cases "fst (import_module h m s)") (auto simp: returned_def)
    from False ok k n r show ?thesis
      by (auto simp: trace_ok_def rerun_append)
  qed
  have f: "fst ` set ?ys \<subseteq> {m}" by simp
  have l: "\<forall>k. loaded s k \<longrightarrow> loaded ?s' k \<and> k \<notin> fst ` set ?ys"
    using k by auto
  from e t f l show ?thesis by blast
qed

lemma load_loop_runs:
  assumes H: "\<forall>name t k. loaded t k \<longrightarrow> loaded (snd (host_import h name t)) k"
  shows "trace_ok xs s \<Longrightarrow>
         \<exists>ys. executed (snd (load_loop h ps c s)) = executed s @ ys
           \<and> trace_ok (xs @ ys) (snd (load_loop h ps c s))
           \<and> fst ` set ys \<subseteq> set (map strip ps)
           \<and> (\<forall>k. loaded s k \<longrightarrow> loaded (snd (load_loop h ps c s)) k \<and> k \<notin> fst ` set ys)"
proof (induction ps arbitrary: c s xs)
  case Nil
  then show ?case by simp
next
  case (Cons p ps)
  obtain res s1 where l: "load_tools_from_module h (strip p) s = (res, s1)"
    by (cases "load_tools_from_module h (strip p) s")
  from load_tools_step [OF H Cons.prems, of "strip p"] l
  obtain ys where ys: "executed s1 = executed s @ ys" "trace_ok (xs @ ys) s1"
      "fst ` set ys \<subseteq> {strip p}" "\<forall>k. loaded s k \<longrightarrow> loaded s1 k \<and> k \<notin> fst ` set ys"
    by auto
  let ?s2 = "case res of Inr u \<Rightarrow> s1
             | Inl e \<Rightarrow> logger_error (''Failed to load tool module '' @ p @ '': '' @ snd e) s1"
  let ?c2 = "case res of Inr u \<Rightarrow> c + 1 | Inl e \<Rightarrow> c"
  have s2a: "executed ?s2 = executed s1"
    by (simp add: logger_error_def split: sum.splits)
  have s2b: "trace_ok (xs @ ys) ?s2"
    using ys(2) by (simp split: sum.splits)
  have s2c: "loaded ?s2 k = loaded s1 k" for k
    by (simp add: logger_error_def loaded_def split: sum.splits)
  show ?case
  proof (cases "\<exists>e. res = Inl e \<and> \<not> isinstance_Exception e")
    case True
    with l have "snd (load_loop h (p # ps) c s) = s1" by auto
    with ys show ?thesis by (intro exI [of _ ys]) auto
  next
    case False
    with l have u: "load_loop h (p # ps) c s = load_loop h ps ?c2 ?s2"
      by (auto split: sum.splits)
    from Cons.IH [OF s2b, of ?c2]
    obtain zs where zs: "executed (snd (load_loop h ps ?c2 ?s2)) = executed ?s2 @ zs"
        "trace_ok ((xs @ ys) @ zs) (snd (load_loop h ps ?c2 ?s2))"
        "fst ` set zs \<subseteq> set (map strip ps)"
        "\<forall>k. loaded ?s2 k \<longrightarrow> loaded (snd (load_loop h ps ?c2 ?s2)) k \<and> k \<notin> fst ` set zs"
      by blast
    show ?thesis
    proof (intro exI [of _ "ys @ zs"] conjI)
      show "executed (snd (load_loop h (p # ps) c s)) = executed s @ ys @ zs"
        using u zs(1) s2a ys(1) by simp
      show "trace_ok (xs @ ys @ zs) (snd (load_loop h (p # ps) c s))"
        using u zs(2) by simp
      show "fst ` set (ys @ zs) \<subseteq> set (map strip (p # ps))"
        using ys(3) zs(3) by auto
      show "\<forall>k. loaded s k \<longrightarrow> loaded (snd (load_loop h (p # ps) c s)) k \<and> k \<notin> fst ` set (ys @ zs)"
        using u ys(4) zs(4) s2c by auto
    qed
  qed
qed

lemma load_tools_runs_subset:
  "\<exists>ys. executed (snd (load_tools_from_module h m s)) = executed s @ ys \<and> fst ` set ys \<subseteq> {m}"
  by (simp add: load_tools_executed import_module_executed)

lemma load_loop_runs_subset:
  "\<exists>ys. executed (snd (load_loop h ps c s)) = executed s @ ys
        \<and> fst ` set ys \<subseteq> set (map strip ps)"
proof (induction ps arbitrary: c s)
  case Nil
  then show ?case by simp
next
  case (Cons p ps)
  obtain res s1 where l: "load_tools_from_module h (strip p) s = (res, s1)"
    by (cases "load_tools_from_module h (strip p) s")
  from load_tools_runs_subset [of h "strip p" s] l
  obtain ys where ys: "executed s1 = executed s @ ys" "fst ` set ys \<subseteq> {strip p}" by auto
  let ?s2 = "case res of Inr u \<Rightarrow> s1
             | Inl e \<Rightarrow> logger_error (''Failed to load tool module '' @ p @ '': '' @ snd e) s1"
  let ?c2 = "case res of Inr u \<Rightarrow> c + 1 | Inl e \<Rightarrow> c"
  have s2a: "executed ?s2 = executed s1"
    by (simp add: logger_error_def split: sum.splits)
  show ?case
  proof (cases "\<exists>e. res = Inl e \<and> \<not> isinstance_Exception e")
    case True
    with l have "snd (load_loop h (p # ps) c s) = s1" by auto
    with ys show ?thesis by (intro exI [of _ ys]) auto
  next
    case False
    with l have u: "load_loop h (p # ps) c s = load_loop h ps ?c2 ?s2"
      by (auto split: sum.splits)
    from Cons.IH [of ?c2 ?s2]
    obtain zs where zs: "executed (snd (load_loop h ps ?c2 ?s2)) = executed ?s2 @ zs"
        "fst ` set zs \<subseteq> set (map strip ps)"
      by blast
    show ?thesis
    proof (intro exI [of _ "ys @ zs"] conjI)
      show "executed (snd (load_loop h (p # ps) c s)) = executed s @ ys @ zs"
        using u zs(1) s2a ys(1) by simp
      show "fst ` set (ys @ zs) \<subseteq> set (map strip (p # ps))"
        using ys(2) zs(2) by auto
    qed
  qed
qed

text \<open>
  Claim C2, as amended. Discovery makes exactly one import call, for the package
  it scans, and none for a candidate module. Everything that Discovery changes,
  apart from at most one log record of its own, is changed by that one import: if
  the package is already loaded the import runs no code and changes nothing, and
  otherwise it runs the top-level code of the package once. In a pass of
  \<open>auto_discover_and_load_tools\<close> that returns, the Loader makes one import call
  for each discovered path, in order; the module code that these calls run belongs
  to discovered paths, and, provided module code never removes a loaded module
  from \<open>sys.modules\<close>, a module that was loaded before the Loader started is not
  run, and a module is run a second time only if its earlier run raised.
\<close>

theorem discovery_imports_only_the_package:
  assumes "fst (discover_tool_modules h ''app.tools'' s) = Inr paths"
      and "fst (auto_discover_and_load_tools h s) = Inr n"
  shows "(\<exists>extra. snd (discover_tool_modules h p s0)
                    = (snd (import_module h p s0))
                        \<lparr>logger := logger (snd (import_module h p s0)) @ extra\<rparr>
                  \<and> length extra \<le> 1)
         \<and> import_calls (snd (discover_tool_modules h p s0)) = import_calls s0 @ [p]
         \<and> executed (snd (discover_tool_modules h p s0))
             = executed s0 @ (if loaded s0 p then []
                              else [(p, returned (fst (import_module h p s0)))])
         \<and> (loaded s0 p \<longrightarrow>
              snd (import_module h p s0) = s0\<lparr>import_calls := import_calls s0 @ [p]\<rparr>)
         \<and> import_calls (snd (auto_discover_and_load_tools h s))
             = import_calls s @ [''app.tools''] @ map strip paths
         \<and> (\<exists>ys. executed (snd (auto_discover_and_load_tools h s))
                    = executed (snd (discover_tool_modules h ''app.tools'' s)) @ ys
                  \<and> fst ` set ys \<subseteq> set (map strip paths)
                  \<and> ((\<forall>name t k. loaded t k \<longrightarrow> loaded (snd (host_import h name t)) k) \<longrightarrow>
                       rerun_only_after_failure ys
                       \<and> (\<forall>k. loaded (snd (discover_tool_modules h ''app.tools'' s)) k
                                \<longrightarrow> k \<notin> fst ` set ys)))"
proof -
  let ?s1 = "snd (discover_tool_modules h ''app.tools'' s)"
  let ?s2 = "snd (auto_discover_and_load_tools h s)"
  have a: "auto_discover_and_load_tools h s = load_tool_modules h (Some paths) ?s1"
    by (rule auto_unfold [OF assms(1)])
  obtain extra where x: "snd (discover_tool_modules h p s0)
        = (snd (import_module h p s0))\<lparr>logger := logger (snd (import_module h p s0)) @ extra\<rparr>"
      "length extra \<le> 1"
    using discover_state [of h p s0] by blast
  have c1: "import_calls (snd (discover_tool_modules h p s0)) = import_calls s0 @ [p]"
    by (simp add: x(1) import_module_calls)
  have c2: "executed (snd (discover_tool_modules h p s0))
             = executed s0 @ (if loaded s0 p then []
                              else [(p, returned (fst (import_module h p s0)))])"
    by (simp only: x(1)) (simp add: import_module_executed)
  have c3: "loaded s0 p \<longrightarrow>
              snd (import_module h p s0) = s0\<lparr>import_calls := import_calls s0 @ [p]\<rparr>"
    by (simp add: import_module_loaded)
  have d: "import_calls ?s1 = import_calls s @ [''app.tools'']"
  proof -
    obtain ex where "?s1 = (snd (import_module h ''app.tools'' s))
        \<lparr>logger := logger (snd (import_module h ''app.tools'' s)) @ ex\<rparr>"
      using discover_state [of h "''app.tools''" s] by blast
    then show ?thesis by (simp add: import_module_calls)
  qed
  have "fst (load_loop h paths 0 ?s1) = Inr n"
    using assms(2) a by (simp add: load_tool_modules_fst)
  then have "import_calls (snd (load_loop h paths 0 ?s1)) = import_calls ?s1 @ map strip paths"
    by (rule load_loop_import_calls)
  then have c4: "import_calls ?s2 = import_calls s @ [''app.tools''] @ map strip paths"
    by (simp add: a load_tool_modules_import_calls d)
  have e: "executed ?s2 = executed (snd (load_loop h paths 0 ?s1))"
    by (simp add: a load_tool_modules_executed)
  obtain ys where ys: "executed (snd (load_loop h paths 0 ?s1)) = executed ?s1 @ ys"
      "fst ` set ys \<subseteq> set (map strip paths)"
    using load_loop_runs_subset [of h paths 0 ?s1] by blast
  have r: "rerun_only_after_failure ys \<and> (\<forall>k. loaded ?s1 k \<longrightarrow> k \<notin> fst ` set ys)"
    if H: "\<forall>name t k. loaded t k \<longrightarrow> loaded (snd (host_import h name t)) k"
  proof -
    have "trace_ok [] ?s1" by (simp add: trace_ok_def)
    from load_loop_runs [OF H this, of paths 0]
    obtain zs where zs: "executed (snd (load_loop h paths 0 ?s1)) = executed ?s1 @ zs"
        "trace_ok ([] @ zs) (snd (load_loop h paths 0 ?s1))"
        "\<forall>k. loaded ?s1 k \<longrightarrow> loaded (snd (load_loop h paths 0 ?s1)) k \<and> k \<notin> fst ` set zs"
      by blast
    from zs(1) ys(1) have "zs = ys" by simp
    with zs(2,3) show ?thesis by (simp add: trace_ok_def)
  qed
  have c5: "\<exists>ys. executed ?s2 = executed ?s1 @ ys
                  \<and> fst ` set ys \<subseteq> set (map strip paths)
                  \<and> ((\<forall>name t k. loaded t k \<longrightarrow> loaded (snd (host_import h name t)) k) \<longrightarrow>
                       rerun_only_after_failure ys
                       \<and> (\<forall>k. loaded ?s1 k \<longrightarrow> k \<notin> fst ` set ys))"
    using e ys r by (intro exI [of _ ys]) simp
  from x c1 c2 c3 c4 c5 show ?thesis by blast
qed

subsection \<open>The environment variable\<close>

lemma register_tool_environ:
  "register_tool (h\<lparr>environ := e\<rparr>) f name r = register_tool h f name r"
  by (simp add: register_tool_def Let_def split: option.splits)

lemma register_tool_listdir:
  "register_tool (h\<lparr>host_listdir := l\<rparr>) f name r = register_tool h f name r"
  by (simp add: register_tool_def Let_def split: option.splits)

lemma register_attrs_environ:
  "register_attrs (h\<lparr>environ := e\<rparr>) attrs r = register_attrs h attrs r"
  by (induction attrs arbitrary: r)
     (auto simp: register_tool_environ split: option.splits prod.splits sum.splits)

lemma register_attrs_listdir:
  "register_attrs (h\<lparr>host_listdir := l\<rparr>) attrs r = register_attrs h attrs r"
  by (induction attrs arbitrary: r)
     (auto simp: register_tool_listdir split: option.splits prod.splits sum.splits)

lemma import_module_environ:
  "import_module (h\<lparr>environ := e\<rparr>) m s = import_module h m s"
  by (simp add: import_module_def Let_def split: option.splits)

lemma import_module_listdir:
  "import_module (h\<lparr>host_listdir := l\<rparr>) m s = import_module h m s"
  by (simp add: import_module_def Let_def split: option.splits)

lemma load_tools_environ:
  "load_tools_from_module (h\<lparr>environ := e\<rparr>) m s = load_tools_from_module h m s"
  by (simp add: load_tools_from_module_def import_module_environ register_attrs_environ
           split: sum.splits prod.splits)

lemma load_tools_listdir:
  "load_tools_from_module (h\<lparr>host_listdir := l\<rparr>) m s = load_tools_from_module h m s"
  by (simp add: load_tools_from_module_def import_module_listdir register_attrs_listdir
           split: sum.splits prod.splits)

lemma load_loop_environ:
  "load_loop (h\<lparr>environ := e\<rparr>) ps c s = load_loop h ps c s"
  by (induction ps arbitrary: c s) (simp_all add: load_tools_environ split: prod.splits sum.splits)

lemma load_loop_listdir:
  "load_loop (h\<lparr>host_listdir := l\<rparr>) ps c s = load_loop h ps c s"
  by (induction ps arbitrary: c s) (simp_all add: load_tools_listdir split: prod.splits sum.splits)

lemma discover_environ:
  "discover_tool_modules (h\<lparr>environ := e\<rparr>) p s = discover_tool_modules h p s"
  by (simp add: discover_tool_modules_def import_module_environ split: sum.splits prod.splits)

text \<open>
  Claim C3, as amended. The variable \<open>MCP_TOOL_MODULES\<close> is read only by
  \<open>load_tool_modules\<close> called without a list. When the variable is set and not
  empty, that call does what the call with the comma-separated entries of the
  variable does: when it returns, it has made one import call for each entry, in
  order, with the entry stripped of surrounding white space, and its result is
  the number of those load attempts that returned; the directory listing has no
  effect on it. \<open>auto_discover_and_load_tools\<close> does not depend on the
  environment variables: it always loads what Discovery returns.
\<close>

theorem env_list_used_only_without_explicit_paths:
  "(environ h ''MCP_TOOL_MODULES'' = Some v \<and> v \<noteq> [] \<longrightarrow>
      load_tool_modules h None s = load_tool_modules h (Some (split (CHR '','') v)) s
      \<and> (\<forall>n. fst (load_tool_modules h None s) = Inr n \<longrightarrow>
            import_calls (snd (load_tool_modules h None s))
              = import_calls s @ map strip (split (CHR '','') v)
            \<and> n = length (filter returned (load_attempts h (split (CHR '','') v) s)))
      \<and> load_tool_modules (h\<lparr>host_listdir := l\<rparr>) None s = load_tool_modules h None s)
   \<and> auto_discover_and_load_tools (h\<lparr>environ := e\<rparr>) s = auto_discover_and_load_tools h s"
proof -
  have a: "auto_discover_and_load_tools (h\<lparr>environ := e\<rparr>) s = auto_discover_and_load_tools h s"
    by (simp add: auto_discover_and_load_tools_def discover_environ load_tool_modules_def
                  load_loop_environ split: prod.splits sum.splits)
  have b: "load_tool_modules h None s = load_tool_modules h (Some (split (CHR '','') v)) s"
    if "environ h ''MCP_TOOL_MODULES'' = Some v" and "v \<noteq> []"
    using that by (simp add: load_tool_modules_def env_module_paths_def)
  have c: "load_tool_modules (h\<lparr>host_listdir := l\<rparr>) None s = load_tool_modules h None s"
    by (simp add: load_tool_modules_def env_module_paths_def load_loop_listdir)
  have d: "import_calls (snd (load_tool_modules h None s))
              = import_calls s @ map strip (split (CHR '','') v)
            \<and> n = length (filter returned (load_attempts h (split (CHR '','') v) s))"
    if "environ h ''MCP_TOOL_MODULES'' = Some v" and "v \<noteq> []"
       and "fst (load_tool_modules h None s) = Inr n" for n
  proof -
    have "fst (load_loop h (split (CHR '','') v) 0 s) = Inr n"
      using that b by (simp add: load_tool_modules_fst)
    from load_loop_import_calls [OF this] load_loop_count [OF this] b [OF that(1,2)]
    show ?thesis by (simp add: load_tool_modules_import_calls)
  qed
  from a b c d show ?thesis by blast
qed

subsection \<open>Counting\<close>

lemma discover_returns_state:
  "tool_registry (snd (discover_tool_modules h p s)) = tool_registry (snd (import_module h p s))
   \<and> sys_modules (snd (discover_tool_modules h p s)) = sys_modules (snd (import_module h p s))"
  using discover_state [of h p s] by auto

lemma load_tools_plain_module:
  assumes "\<not> loaded s m"
      and "\<forall>t. host_import h m t = (Inr md, t)"
      and "register_attrs h (dir_attrs md)
             ((tool_registry s)\<lparr>tool_modules := tool_modules (tool_registry s) @ [md]\<rparr>) = (None, r2)"
  shows "fst (load_tools_from_module h m s) = Inr ()
         \<and> tool_registry (snd (load_tools_from_module h m s)) = r2
         \<and> sys_modules (snd (load_tools_from_module h m s)) = dict_set m md (sys_modules s)"
proof -
  have n: "dict_get (sys_modules s) m = None" using assms(1) by (simp add: loaded_def)
  have i: "import_module h m s
             = (Inr md, s\<lparr>sys_modules := dict_set m md (sys_modules s),
                          import_calls := import_calls s @ [m],
                          executed := executed s @ [(m, True)]\<rparr>)"
    using n assms(2) by (simp add: import_module_def Let_def)
  show ?thesis
    using assms(3) by (simp add: load_tools_from_module_def i logger_info_def)
qed

text \<open>
  Claim C4. The number that \<open>auto_discover_and_load_tools\<close> returns is the
  number of discovered module paths whose call of \<open>load_tools_from_module\<close>
  returned without raising. In particular, when Discovery returns two paths of
  modules that are not yet loaded and whose top-level code only defines their
  attributes, the first a module whose only tagged callable is \<open>foo\<close> (with a
  non-empty name in its tool definition, accepted by FastMCP) and the second a
  module with no tagged callable, the result is 2 and the registry that Discovery
  left gains the entry for \<open>foo\<close> only.
\<close>

theorem auto_discover_counts_attempts_that_returned:
  "(fst (discover_tool_modules h ''app.tools'' s) = Inr paths
      \<and> fst (auto_discover_and_load_tools h s) = Inr n \<longrightarrow>
      n = length (filter returned
            (load_attempts h paths (snd (discover_tool_modules h ''app.tools'' s)))))
   \<and> (fst (discover_tool_modules h ''app.tools'' s) = Inr [pa, pb]
      \<and> \<not> loaded (snd (discover_tool_modules h ''app.tools'' s)) (strip pa)
      \<and> \<not> loaded (snd (discover_tool_modules h ''app.tools'' s)) (strip pb)
      \<and> (\<forall>t. host_import h (strip pa) t = (Inr ma, t))
      \<and> filter tagged (dir_attrs ma) = [(an, foo)]
      \<and> tool_definition foo = Some td \<and> dict_get td ''name'' = Some name \<and> name \<noteq> []
      \<and> fastmcp_tool h foo = None
      \<and> (\<forall>t. host_import h (strip pb) t = (Inr mb, t))
      \<and> filter tagged (dir_attrs mb) = [] \<longrightarrow>
      fst (auto_discover_and_load_tools h s) = Inr 2
      \<and> registered_tools (tool_registry (snd (auto_discover_and_load_tools h s)))
          = dict_set name foo
              (registered_tools (tool_registry (snd (discover_tool_modules h ''app.tools'' s)))))"
proof (intro conjI impI)
  assume a: "fst (discover_tool_modules h ''app.tools'' s) = Inr paths
      \<and> fst (auto_discover_and_load_tools h s) = Inr n"
  then have "fst (load_loop h paths 0 (snd (discover_tool_modules h ''app.tools'' s))) = Inr n"
    using auto_unfold [of h s paths] by (simp add: load_tool_modules_fst)
  from load_loop_count [OF this]
  show "n = length (filter returned
            (load_attempts h paths (snd (discover_tool_modules h ''app.tools'' s))))"
    by simp
next
  let ?s1 = "snd (discover_tool_modules h ''app.tools'' s)"
  assume a: "fst (discover_tool_modules h ''app.tools'' s) = Inr [pa, pb]
      \<and> \<not> loaded ?s1 (strip pa) \<and> \<not> loaded ?s1 (strip pb)
      \<and> (\<forall>t. host_import h (strip pa) t = (Inr ma, t))
      \<and> filter tagged (dir_attrs ma) = [(an, foo)]
      \<and> tool_definition foo = Some td \<and> dict_get td ''name'' = Some name \<and> name \<noteq> []
      \<and> fastmcp_tool h foo = None
      \<and> (\<forall>t. host_import h (strip pb) t = (Inr mb, t))
      \<and> filter tagged (dir_attrs mb) = []"
  have u: "auto_discover_and_load_tools h s = load_tool_modules h (Some [pa, pb]) ?s1"
    using a auto_unfold [of h s "[pa, pb]"] by simp
  have ca: "is_callable foo"
  proof -
    have "(an, foo) \<in> set (filter tagged (dir_attrs ma))" using a by simp
    then show ?thesis by (simp add: tagged_def)
  qed
  have ra: "register_attrs h (dir_attrs ma) r0
              = (None, r0\<lparr>registered_tools := dict_set name foo (registered_tools r0),
                         mcp := mcp r0 @ [foo]\<rparr>)" for r0
    using a ca by (subst register_attrs_tagged) (simp add: register_tool_def)
  have rb: "register_attrs h (dir_attrs mb) r0 = (None, r0)" for r0
    using a by (subst register_attrs_tagged) simp
  have ne: "strip pa \<noteq> strip pb"
  proof
    assume e: "strip pa = strip pb"
    from a have "host_import h (strip pa) s = (Inr ma, s)" "host_import h (strip pb) s = (Inr mb, s)"
      by blast+
    with e have "ma = mb" by simp
    moreover from a have "filter tagged (dir_attrs ma) = [(an, foo)]"
        and "filter tagged (dir_attrs mb) = []" by blast+
    ultimately show False by simp
  qed
  obtain sa where la: "load_tools_from_module h (strip pa) ?s1 = (Inr (), sa)"
      and ta: "tool_registry sa
                = (tool_registry ?s1)
                    \<lparr>tool_modules := tool_modules (tool_registry ?s1) @ [ma],
                     registered_tools := dict_set name foo (registered_tools (tool_registry ?s1)),
                     mcp := mcp (tool_registry ?s1) @ [foo]\<rparr>"
      and ma: "sys_modules sa = dict_set (strip pa) ma (sys_modules ?s1)"
  proof -
    have n: "\<not> loaded ?s1 (strip pa)" and i: "\<forall>t. host_import h (strip pa) t = (Inr ma, t)"
      using a by blast+
    from load_tools_plain_module [OF n i ra]
    show ?thesis
      by (cases "load_tools_from_module h (strip pa) ?s1") (auto intro: that)
  qed
  have nb: "\<not> loaded sa (strip pb)"
    using a ne by (simp add: loaded_def ma dict_get_set)
  obtain sb where lb: "load_tools_from_module h (strip pb) sa = (Inr (), sb)"
      and tb: "tool_registry sb = (tool_registry sa)
                  \<lparr>tool_modules := tool_modules (tool_registry sa) @ [mb]\<rparr>"
  proof -
    have i: "\<forall>t. host_import h (strip pb) t = (Inr mb, t)" using a by blast
    from load_tools_plain_module [OF nb i rb]
    show ?thesis
      by (cases "load_tools_from_module h (strip pb) sa") (auto intro: that)
  qed
  show "fst (auto_discover_and_load_tools h s) = Inr 2"
    by (simp add: u load_tool_modules_def la lb)
  show "registered_tools (tool_registry (snd (auto_discover_and_load_tools h s)))
          = dict_set name foo (registered_tools (tool_registry ?s1))"
    by (simp add: u load_tool_modules_def la lb logger_info_def ta tb)
qed

subsection \<open>Navigation\<close>




subsection \<open>URLs\<close>

lemma rstrip_char_decomp: "\<exists>k. s = rstrip_char c s @ replicate k c"
proof -
  have "rev s = takeWhile (\<lambda>x. x = c) (rev s) @ dropWhile (\<lambda>x. x = c) (rev s)" by simp
  then have "s = rev (dropWhile (\<lambda>x. x = c) (rev s)) @ rev (takeWhile (\<lambda>x. x = c) (rev s))"
    by (metis rev_append rev_rev_ident)
  moreover have "rev (takeWhile (\<lambda>x. x = c) (rev s))
                   = replicate (length (takeWhile (\<lambda>x. x = c) (rev s))) c"
    by (rule replicate_eqI) (auto dest: set_takeWhileD)
  ultimately show ?thesis by (metis rstrip_char_def)
qed

lemma lstrip_char_decomp: "\<exists>k. s = replicate k c @ lstrip_char c s"
proof -
  have "s = takeWhile (\<lambda>x. x = c) s @ dropWhile (\<lambda>x. x = c) s" by simp
  moreover have "takeWhile (\<lambda>x. x = c) s = replicate (length (takeWhile (\<lambda>x. x = c) s)) c"
    by (rule replicate_eqI) (auto dest: set_takeWhileD)
  ultimately show ?thesis by (metis lstrip_char_def)
qed

lemma lstrip_char_no_lead: "\<not> startswith (lstrip_char c s) [c]"
proof (cases "dropWhile (\<lambda>x. x = c) s")
  case Nil
  then show ?thesis by (simp add: startswith_def lstrip_char_def del: dropWhile_eq_Nil_conv)
next
  case (Cons y ys)
  then have "y \<noteq> c" using hd_dropWhile [of "\<lambda>x. x = c" s] by auto
  with Cons show ?thesis by (simp add: startswith_def lstrip_char_def)
qed

lemma rstrip_char_no_trail: "\<not> endswith (rstrip_char c s) [c]"
proof (cases "dropWhile (\<lambda>x. x = c) (rev s)")
  case Nil
  then show ?thesis by (simp add: endswith_def rstrip_char_def del: dropWhile_eq_Nil_conv)
next
  case (Cons y ys)
  then have "y \<noteq> c" using hd_dropWhile [of "\<lambda>x. x = c" "rev s"] by auto
  with Cons show ?thesis by (simp add: endswith_def rstrip_char_def)
qed

text \<open>
  Claim C9. For an endpoint that is not an absolute URL, \<open>build_url\<close> returns the
  base URL without its trailing slashes, one slash, and the endpoint without its
  leading slashes; nothing else of either is lost. With the base
  \<open>https://api.example.com/\<close> and the endpoint \<open>/users\<close> this is
  \<open>https://api.example.com/users\<close>.
\<close>
theorem build_url_single_slash:
  assumes "\<not> is_absolute endpoint"
  shows "\<exists>b e j k. build_url self endpoint = b @ ''/'' @ e
           \<and> base_url self = b @ replicate k (CHR ''/'')
           \<and> endpoint = replicate j (CHR ''/'') @ e
           \<and> \<not> endswith b ''/'' \<and> \<not> startswith e ''/''"
proof -
  obtain k where k: "base_url self = rstrip_char (CHR ''/'') (base_url self) @ replicate k (CHR ''/'')"
    using rstrip_char_decomp by blast
  obtain j where j: "endpoint = replicate j (CHR ''/'') @ lstrip_char (CHR ''/'') endpoint"
    using lstrip_char_decomp by blast
  have "build_url self endpoint
          = rstrip_char (CHR ''/'') (base_url self) @ ''/'' @ lstrip_char (CHR ''/'') endpoint"
    using assms by (simp add: build_url_def)
  with k j rstrip_char_no_trail [of "CHR ''/''" "base_url self"]
       lstrip_char_no_lead [of "CHR ''/''" endpoint]
  show ?thesis by blast
qed


subsection \<open>The concrete installation\<close>

lemma ex_import_package: "fst (import_module ex_host ''app.tools'' state_init) = Inr ex_package"
  by code_simp

lemma ex_listdir:
  "host_listdir ex_host (dirname ''/srv/app/tools/__init__.py'') = Inr [''a.py'', ''b.py'', ''__init__.py'']"
  by code_simp

lemma ex_discover:
  "fst (discover_tool_modules ex_host ''app.tools'' state_init) = Inr [''app.tools.a'', ''app.tools.b'']"
  by code_simp

lemma ex_auto: "fst (auto_discover_and_load_tools ex_host state_init) = Inr 2"
  by code_simp

text \<open>
  The modules of the installation never remove anything from \<open>sys.modules\<close>,
  which is what the statement on repeated runs asks of module code.
\<close>

lemma ex_keeps_loaded:
  "\<forall>name t k. loaded t k \<longrightarrow> loaded (snd (host_import ex_host name t)) k"
  by (simp add: ex_host_def loaded_def)

text \<open>
  A module that does not exist is counted as loaded: its \<open>ImportError\<close> is caught
  inside \<open>load_tools_from_module\<close>, so the attempt returns.
\<close>

lemma ex_missing_module_is_counted:
  "fst (load_tool_modules ex_host (Some [''x.only'']) state_init) = Inr 1
   \<and> registered_tools (tool_registry (snd (load_tool_modules ex_host (Some [''x.only'']) state_init))) = []"
  by code_simp

text \<open>
  Two discovered paths that strip to the same module name give two import calls
  and one run of the module.
\<close>

lemma ex_same_module_twice:
  "import_calls (snd (load_tool_modules ex_host (Some [''app.tools.a'', ''app.tools.a '']) state_init))
     = [''app.tools.a'', ''app.tools.a'']
   \<and> executed (snd (load_tool_modules ex_host (Some [''app.tools.a'', ''app.tools.a '']) state_init))
     = [(''app.tools.a'', True)]"
  by code_simp

theorem register_tool_name_omitted_witness:
  "dunder_name ex_ping = Some ''ping''
   \<and> dict_get (registered_tools (snd (register_tool ex_host ex_ping None ToolRegistry_init))) ''ping''
       = Some ex_ping
   \<and> keys (registered_tools (snd (register_tool ex_host ex_ping None ToolRegistry_init))) = [''ping'']
   \<and> fst (register_tool ex_host ex_ping None ToolRegistry_init) = Inr ex_ping"
proof -
  have n: "dunder_name ex_ping = Some ''ping''" by (simp add: ex_ping_def)
  have a: "fastmcp_tool ex_host ex_ping = None" by (simp add: ex_host_def)
  have k: "keys (registered_tools ToolRegistry_init) = []"
    by (simp add: ToolRegistry_init_def keys_def)
  from register_tool_name_omitted [OF n, of ex_host ToolRegistry_init] n a k
  show ?thesis by simp
qed

theorem register_tool_overwrite_witness:
  "registered_tools (fold (\<lambda>(g, name) r. snd (register_tool ex_host g name r))
                       [(ex_foo, Some ''foo''), (ex_ping, None)] ToolRegistry_init)
     = [(''foo'', ex_foo), (''ping'', ex_ping)]
   \<and> registered_tools (snd (register_tool ex_host ex_foo2 (Some ''foo'')
         (fold (\<lambda>(g, name) r. snd (register_tool ex_host g name r))
               [(ex_foo, Some ''foo''), (ex_ping, None)] ToolRegistry_init)))
     = [(''foo'', ex_foo2), (''ping'', ex_ping)]
   \<and> fst (register_tool ex_host ex_foo2 (Some ''foo'')
         (fold (\<lambda>(g, name) r. snd (register_tool ex_host g name r))
               [(ex_foo, Some ''foo''), (ex_ping, None)] ToolRegistry_init)) = Inr ex_foo2"
proof -
  let ?r = "fold (\<lambda>(g, name) r. snd (register_tool ex_host g name r))
               [(ex_foo, Some ''foo''), (ex_ping, None)] ToolRegistry_init"
  have r: "registered_tools ?r = [(''foo'', ex_foo), (''ping'', ex_ping)]"
    by (simp add: register_tool_def ex_host_def ex_foo_def ex_ping_def ToolRegistry_init_def)
  have i: "0 < length (registered_tools ?r)" by (simp only: r) simp
  have n: "fst (registered_tools ?r ! 0) = ''foo''" by (simp only: r) simp
  have a: "fastmcp_tool ex_host ex_foo2 = None" by (simp add: ex_host_def)
  from register_tool_overwrite [OF refl i n, of ex_foo2] a r
  show ?thesis by simp
qed

theorem load_tools_import_error_counterexample:
  "fst (import_module ex_host ''app.tools.early'' state_init)
     = Inl (ModuleNotFoundError, ''No module named missing_dependency'')
   \<and> isinstance_ImportError (ModuleNotFoundError, ''No module named missing_dependency'')
   \<and> fst (load_tools_from_module ex_host ''app.tools.early'' state_init) = Inr ()
   \<and> registered_tools (tool_registry state_init) = []
   \<and> registered_tools (tool_registry (snd (load_tools_from_module ex_host ''app.tools.early'' state_init)))
       = [(''early'', ex_early)]"
  by code_simp

theorem load_tools_import_error_keeps_import_state_witness:
  "fst (import_module ex_host ''x.only'' state_init) = Inl (ModuleNotFoundError, ''No module named x.only'')
   \<and> isinstance_ImportError (ModuleNotFoundError, ''No module named x.only'')
   \<and> fst (load_tools_from_module ex_host ''x.only'' state_init) = Inr ()
   \<and> tool_registry (snd (load_tools_from_module ex_host ''x.only'' state_init))
       = tool_registry state_init
   \<and> logger (snd (load_tools_from_module ex_host ''x.only'' state_init))
       = [(ERROR, ''Error loading tool module x.only: No module named x.only'')]
   \<and> fst (import_module ex_host ''app.tools.early'' state_init)
       = Inl (ModuleNotFoundError, ''No module named missing_dependency'')
   \<and> registered_tools (tool_registry (snd (import_module ex_host ''app.tools.early'' state_init)))
       = [(''early'', ex_early)]
   \<and> tool_registry (snd (load_tools_from_module ex_host ''app.tools.early'' state_init))
       = tool_registry (snd (import_module ex_host ''app.tools.early'' state_init))"
proof -
  have h: "fst (import_module ex_host ''x.only'' state_init)
             = Inl (ModuleNotFoundError, ''No module named x.only'')"
    by code_simp
  have i: "isinstance_ImportError (ModuleNotFoundError, ''No module named x.only'')" by simp
  have r: "tool_registry (snd (import_module ex_host ''x.only'' state_init)) = tool_registry state_init"
    by code_simp
  have l: "logger (snd (import_module ex_host ''x.only'' state_init)) = []"
    by code_simp
  note t = load_tools_import_error_keeps_import_state [OF h i]
  from t have a: "fst (load_tools_from_module ex_host ''x.only'' state_init) = Inr ()"
    by blast
  from t have "tool_registry (snd (load_tools_from_module ex_host ''x.only'' state_init))
                 = tool_registry (snd (import_module ex_host ''x.only'' state_init))"
    by blast
  with r have b: "tool_registry (snd (load_tools_from_module ex_host ''x.only'' state_init))
                    = tool_registry state_init"
    by (simp only:)
  from t have "logger (snd (load_tools_from_module ex_host ''x.only'' state_init))
                 = logger (snd (import_module ex_host ''x.only'' state_init))
                     @ [(ERROR, ''Error loading tool module '' @ ''x.only'' @ '': ''
                                  @ snd (ModuleNotFoundError, ''No module named x.only''))]"
    by blast
  then have c: "logger (snd (load_tools_from_module ex_host ''x.only'' state_init))
                  = [(ERROR, ''Error loading tool module x.only: No module named x.only'')]"
    by (simp only: l) simp
  have h': "fst (import_module ex_host ''app.tools.early'' state_init)
              = Inl (ModuleNotFoundError, ''No module named missing_dependency'')"
    by code_simp
  have i': "isinstance_ImportError (ModuleNotFoundError, ''No module named missing_dependency'')"
    by simp
  have r': "registered_tools (tool_registry (snd (import_module ex_host ''app.tools.early'' state_init)))
              = [(''early'', ex_early)]"
    by code_simp
  from load_tools_import_error_keeps_import_state [OF h' i']
  have d: "tool_registry (snd (load_tools_from_module ex_host ''app.tools.early'' state_init))
             = tool_registry (snd (import_module ex_host ''app.tools.early'' state_init))"
    by blast
  from h i a b c h' r' d show ?thesis by blast
qed

theorem discover_one_path_per_source_file_witness:
  "fst (import_module ex_host ''app.tools'' state_init) = Inr ex_package
   \<and> dunder_file ex_package = Some ''/srv/app/tools/__init__.py''
   \<and> host_listdir ex_host (dirname ''/srv/app/tools/__init__.py'')
       = Inr [''a.py'', ''b.py'', ''__init__.py'']
   \<and> (\<exists>paths. fst (discover_tool_modules ex_host ''app.tools'' state_init) = Inr paths
         \<and> length paths = 2
         \<and> paths ! 0 @ ''.py'' = ''app.tools.a.py''
         \<and> paths ! 1 @ ''.py'' = ''app.tools.b.py'')"
proof -
  have f: "dunder_file ex_package = Some ''/srv/app/tools/__init__.py''"
    by (simp add: ex_package_def)
  have s: "filter (\<lambda>file. endswith file ''.py'' \<and> \<not> startswith file ''__'')
             [''a.py'', ''b.py'', ''__init__.py''] = [''a.py'', ''b.py'']"
    by (simp add: endswith_def startswith_def)
  from discover_one_path_per_source_file [OF ex_import_package f ex_listdir refl]
  obtain paths where p: "fst (discover_tool_modules ex_host ''app.tools'' state_init) = Inr paths"
      "length paths = 2"
      "\<forall>i<2. paths ! i @ ''.py'' = ''app.tools.'' @ [''a.py'', ''b.py''] ! i"
    unfolding s by auto
  from p(3) have "paths ! 0 @ ''.py'' = ''app.tools.a.py''" "paths ! 1 @ ''.py'' = ''app.tools.b.py''"
    by auto
  with p(1,2) ex_import_package f ex_listdir show ?thesis by blast
qed

theorem discover_missing_returns_empty_witness:
  "fst (import_module ex_host ''nope'' state_init) = Inl (ModuleNotFoundError, ''No module named nope'')
   \<and> isinstance_ImportError (ModuleNotFoundError, ''No module named nope'')
   \<and> fst (discover_tool_modules ex_host ''nope'' state_init) = Inr []
   \<and> logger (snd (discover_tool_modules ex_host ''nope'' state_init))
       = [(ERROR, ''Error discovering modules in nope: No module named nope'')]
   \<and> fst (import_module ex_host_nodir ''app.tools'' state_init) = Inr ex_package
   \<and> dunder_file ex_package = Some ''/srv/app/tools/__init__.py''
   \<and> host_listdir ex_host_nodir (dirname ''/srv/app/tools/__init__.py'')
       = Inl (FileNotFoundError, ''No such file or directory: /srv/app/tools'')
   \<and> isinstance_FileNotFoundError (FileNotFoundError, ''No such file or directory: /srv/app/tools'')
   \<and> fst (discover_tool_modules ex_host_nodir ''app.tools'' state_init) = Inr []
   \<and> logger (snd (discover_tool_modules ex_host_nodir ''app.tools'' state_init))
       = [(ERROR, ''Error discovering modules in app.tools: No such file or directory: /srv/app/tools'')]"
proof -
  have h1: "fst (import_module ex_host ''nope'' state_init)
              = Inl (ModuleNotFoundError, ''No module named nope'')"
    by code_simp
  have i1: "isinstance_ImportError (ModuleNotFoundError, ''No module named nope'')" by simp
  have g1: "logger (snd (import_module ex_host ''nope'' state_init)) = []" by code_simp
  have h2: "fst (import_module ex_host_nodir ''app.tools'' state_init) = Inr ex_package"
    by code_simp
  have f: "dunder_file ex_package = Some ''/srv/app/tools/__init__.py''"
    by (simp add: ex_package_def)
  have l2: "host_listdir ex_host_nodir (dirname ''/srv/app/tools/__init__.py'')
              = Inl (FileNotFoundError, ''No such file or directory: /srv/app/tools'')"
    by code_simp
  have i2: "isinstance_FileNotFoundError (FileNotFoundError, ''No such file or directory: /srv/app/tools'')"
    by simp
  have g2: "logger (snd (import_module ex_host_nodir ''app.tools'' state_init)) = []" by code_simp
  have a: "fst (discover_tool_modules ex_host ''nope'' state_init) = Inr []
           \<and> logger (snd (discover_tool_modules ex_host ''nope'' state_init))
               = [(ERROR, ''Error discovering modules in nope: No module named nope'')]"
    using discover_missing_returns_empty [of ex_host "''nope''" state_init
            "(ModuleNotFoundError, ''No module named nope'')"]
          h1 i1 g1 by simp
  have b: "fst (discover_tool_modules ex_host_nodir ''app.tools'' state_init) = Inr []
           \<and> logger (snd (discover_tool_modules ex_host_nodir ''app.tools'' state_init))
               = [(ERROR, ''Error discovering modules in app.tools: No such file or directory: /srv/app/tools'')]"
    using discover_missing_returns_empty [of ex_host_nodir "''app.tools''" state_init
            "(FileNotFoundError, ''No such file or directory: /srv/app/tools'')"]
          h2 f l2 i2 g2 by simp
  from h1 i1 h2 f l2 i2 a b show ?thesis by blast
qed

theorem discovery_imports_counterexample:
  "import_calls state_init = [] \<and> executed state_init = []
   \<and> import_calls (snd (discover_tool_modules ex_host ''app.tools'' state_init)) = [''app.tools'']
   \<and> executed (snd (discover_tool_modules ex_host ''app.tools'' state_init)) = [(''app.tools'', True)]"
  by code_simp

theorem discovery_imports_only_the_package_witness:
  "fst (discover_tool_modules ex_host ''app.tools'' state_init) = Inr [''app.tools.a'', ''app.tools.b'']
   \<and> fst (auto_discover_and_load_tools ex_host state_init) = Inr 2
   \<and> import_calls (snd (discover_tool_modules ex_host ''app.tools'' state_init)) = [''app.tools'']
   \<and> executed (snd (discover_tool_modules ex_host ''app.tools'' state_init)) = [(''app.tools'', True)]
   \<and> import_calls (snd (auto_discover_and_load_tools ex_host state_init))
       = [''app.tools'', ''app.tools.a'', ''app.tools.b'']
   \<and> (\<exists>ys. executed (snd (auto_discover_and_load_tools ex_host state_init))
              = [(''app.tools'', True)] @ ys
            \<and> fst ` set ys \<subseteq> {''app.tools.a'', ''app.tools.b''}
            \<and> rerun_only_after_failure ys
            \<and> ''app.tools'' \<notin> fst ` set ys)"
proof -
  have i: "import_calls state_init = []" by (simp add: state_init_def)
  have s: "map strip [''app.tools.a'', ''app.tools.b''] = [''app.tools.a'', ''app.tools.b'']"
    by code_simp
  have e: "executed (snd (discover_tool_modules ex_host ''app.tools'' state_init)) = [(''app.tools'', True)]"
    by code_simp
  have l: "loaded (snd (discover_tool_modules ex_host ''app.tools'' state_init)) ''app.tools''"
    by code_simp
  note t = discovery_imports_only_the_package [OF ex_discover ex_auto, of "''app.tools''" state_init]
  from t have c1: "import_calls (snd (discover_tool_modules ex_host ''app.tools'' state_init)) = [''app.tools'']"
    using i by simp
  from t have c4: "import_calls (snd (auto_discover_and_load_tools ex_host state_init))
                     = [''app.tools'', ''app.tools.a'', ''app.tools.b'']"
    using i s by simp
  from t obtain ys where ys: "executed (snd (auto_discover_and_load_tools ex_host state_init))
              = executed (snd (discover_tool_modules ex_host ''app.tools'' state_init)) @ ys"
      "fst ` set ys \<subseteq> set (map strip [''app.tools.a'', ''app.tools.b''])"
      "(\<forall>name t k. loaded t k \<longrightarrow> loaded (snd (host_import ex_host name t)) k) \<longrightarrow>
         rerun_only_after_failure ys
         \<and> (\<forall>k. loaded (snd (discover_tool_modules ex_host ''app.tools'' state_init)) k
                 \<longrightarrow> k \<notin> fst ` set ys)"
    by blast
  from ys(3) ex_keeps_loaded l
  have r: "rerun_only_after_failure ys" "''app.tools'' \<notin> fst ` set ys" by blast+
  from ys(2) have sub: "fst ` set ys \<subseteq> {''app.tools.a'', ''app.tools.b''}"
    by (simp only: s) simp
  have c5: "\<exists>ys. executed (snd (auto_discover_and_load_tools ex_host state_init))
              = [(''app.tools'', True)] @ ys
            \<and> fst ` set ys \<subseteq> {''app.tools.a'', ''app.tools.b''}
            \<and> rerun_only_after_failure ys
            \<and> ''app.tools'' \<notin> fst ` set ys"
    using ys(1) e sub r by (intro exI [of _ ys]) simp
  from ex_discover ex_auto c1 e c4 c5 show ?thesis by blast
qed

theorem env_list_ignored_counterexample:
  "environ ex_host ''MCP_TOOL_MODULES'' = Some ''app.tools.a, x.only''
   \<and> import_calls (snd (auto_discover_and_load_tools ex_host state_init))
       = [''app.tools'', ''app.tools.a'', ''app.tools.b'']
   \<and> import_calls (snd (load_tool_modules ex_host (Some [''app.tools.a'', ''x.only'']) state_init))
       = [''app.tools.a'', ''x.only'']"
  by code_simp

theorem env_list_used_only_without_explicit_paths_witness:
  "environ ex_host ''MCP_TOOL_MODULES'' = Some ''app.tools.a, x.only''
   \<and> ''app.tools.a, x.only'' \<noteq> []
   \<and> fst (load_tool_modules ex_host None state_init) = Inr 2
   \<and> load_tool_modules ex_host None state_init
       = load_tool_modules ex_host (Some [''app.tools.a'', '' x.only'']) state_init
   \<and> import_calls (snd (load_tool_modules ex_host None state_init)) = [''app.tools.a'', ''x.only'']
   \<and> length (filter returned (load_attempts ex_host [''app.tools.a'', '' x.only''] state_init)) = 2
   \<and> registered_tools (tool_registry (snd (load_tool_modules ex_host None state_init)))
       = [(''foo'', ex_foo)]
   \<and> load_tool_modules (ex_host\<lparr>host_listdir := (\<lambda>d. Inr [])\<rparr>) None state_init
       = load_tool_modules ex_host None state_init
   \<and> auto_discover_and_load_tools (ex_host\<lparr>environ := (\<lambda>k. None)\<rparr>) state_init
       = auto_discover_and_load_tools ex_host state_init"
proof -
  have e: "environ ex_host ''MCP_TOOL_MODULES'' = Some ''app.tools.a, x.only''"
    by (simp add: ex_host_def)
  have n: "''app.tools.a, x.only'' \<noteq> []" by simp
  have sp: "split (CHR '','') ''app.tools.a, x.only'' = [''app.tools.a'', '' x.only'']"
    by code_simp
  have st: "map strip [''app.tools.a'', '' x.only''] = [''app.tools.a'', ''x.only'']"
    by code_simp
  have i: "import_calls state_init = []" by (simp add: state_init_def)
  have r: "fst (load_tool_modules ex_host (Some [''app.tools.a'', '' x.only'']) state_init) = Inr 2"
    by code_simp
  have g: "registered_tools (tool_registry
             (snd (load_tool_modules ex_host (Some [''app.tools.a'', '' x.only'']) state_init)))
           = [(''foo'', ex_foo)]"
    by code_simp
  note t = env_list_used_only_without_explicit_paths
             [of ex_host "''app.tools.a, x.only''" state_init "\<lambda>d. Inr []" "\<lambda>k. None"]
  from t e n have q: "load_tool_modules ex_host None state_init
       = load_tool_modules ex_host (Some [''app.tools.a'', '' x.only'']) state_init"
    by (simp only: sp) blast
  from q r have f: "fst (load_tool_modules ex_host None state_init) = Inr 2" by simp
  from t e n f have "import_calls (snd (load_tool_modules ex_host None state_init))
                       = import_calls state_init @ map strip (split (CHR '','') ''app.tools.a, x.only'')
                     \<and> 2 = length (filter returned
                             (load_attempts ex_host (split (CHR '','') ''app.tools.a, x.only'') state_init))"
    by blast
  then have c: "import_calls (snd (load_tool_modules ex_host None state_init)) = [''app.tools.a'', ''x.only'']"
      and d: "length (filter returned (load_attempts ex_host [''app.tools.a'', '' x.only''] state_init)) = 2"
    by (simp_all only: sp st i) simp_all
  from t e n have l: "load_tool_modules (ex_host\<lparr>host_listdir := (\<lambda>d. Inr [])\<rparr>) None state_init
       = load_tool_modules ex_host None state_init"
    by blast
  from t have a: "auto_discover_and_load_tools (ex_host\<lparr>environ := (\<lambda>k. None)\<rparr>) state_init
       = auto_discover_and_load_tools ex_host state_init"
    by blast
  from g q have g': "registered_tools (tool_registry (snd (load_tool_modules ex_host None state_init)))
       = [(''foo'', ex_foo)]"
    by simp
  from e n f q c d g' l a show ?thesis by blast
qed

theorem auto_discover_counts_attempts_that_returned_witness:
  "fst (discover_tool_modules ex_host ''app.tools'' state_init) = Inr [''app.tools.a'', ''app.tools.b'']
   \<and> \<not> loaded (snd (discover_tool_modules ex_host ''app.tools'' state_init)) (strip ''app.tools.a'')
   \<and> \<not> loaded (snd (discover_tool_modules ex_host ''app.tools'' state_init)) (strip ''app.tools.b'')
   \<and> (\<forall>t. host_import ex_host (strip ''app.tools.a'') t = (Inr ex_module_a, t))
   \<and> filter tagged (dir_attrs ex_module_a) = [(''foo'', ex_foo)]
   \<and> tool_definition ex_foo = Some [(''name'', ''foo''), (''description'', ''Foo'')]
   \<and> dict_get [(''name'', ''foo''), (''description'', ''Foo'')] ''name'' = Some ''foo''
   \<and> fastmcp_tool ex_host ex_foo = None
   \<and> (\<forall>t. host_import ex_host (strip ''app.tools.b'') t = (Inr ex_module_b, t))
   \<and> filter tagged (dir_attrs ex_module_b) = []
   \<and> fst (auto_discover_and_load_tools ex_host state_init) = Inr 2
   \<and> registered_tools (tool_registry (snd (auto_discover_and_load_tools ex_host state_init)))
       = [(''foo'', ex_foo)]
   \<and> length (filter returned (load_attempts ex_host [''app.tools.a'', ''app.tools.b'']
               (snd (discover_tool_modules ex_host ''app.tools'' state_init)))) = 2"
proof -
  have sa: "strip ''app.tools.a'' = ''app.tools.a''" by code_simp
  have sb: "strip ''app.tools.b'' = ''app.tools.b''" by code_simp
  have na: "\<not> loaded (snd (discover_tool_modules ex_host ''app.tools'' state_init)) (strip ''app.tools.a'')"
    by code_simp
  have nb: "\<not> loaded (snd (discover_tool_modules ex_host ''app.tools'' state_init)) (strip ''app.tools.b'')"
    by code_simp
  have a: "\<forall>t. host_import ex_host (strip ''app.tools.a'') t = (Inr ex_module_a, t)"
    by (simp only: sa) (simp add: ex_host_def)
  have b: "\<forall>t. host_import ex_host (strip ''app.tools.b'') t = (Inr ex_module_b, t)"
    by (simp only: sb) (simp add: ex_host_def)
  have ta: "filter tagged (dir_attrs ex_module_a) = [(''foo'', ex_foo)]"
    by (simp add: tagged_def ex_module_a_def ex_foo_def ex_doc_def)
  have tb: "filter tagged (dir_attrs ex_module_b) = []"
    by (simp add: tagged_def ex_module_b_def ex_ping_def ex_doc_def)
  have td: "tool_definition ex_foo = Some [(''name'', ''foo''), (''description'', ''Foo'')]"
    by (simp add: ex_foo_def)
  have g: "dict_get [(''name'', ''foo''), (''description'', ''Foo'')] ''name'' = Some ''foo''"
    by simp
  have n: "''foo'' \<noteq> []" by simp
  have m: "fastmcp_tool ex_host ex_foo = None" by (simp add: ex_host_def)
  have r: "registered_tools (tool_registry (snd (discover_tool_modules ex_host ''app.tools'' state_init))) = []"
    by code_simp
  note t = auto_discover_counts_attempts_that_returned
             [of ex_host state_init "[''app.tools.a'', ''app.tools.b'']" 2
                 "''app.tools.a''" "''app.tools.b''" ex_module_a "''foo''" ex_foo
                 "[(''name'', ''foo''), (''description'', ''Foo'')]" "''foo''" ex_module_b]
  from t ex_discover ex_auto
  have c: "(2::nat) = length (filter returned (load_attempts ex_host [''app.tools.a'', ''app.tools.b'']
               (snd (discover_tool_modules ex_host ''app.tools'' state_init))))"
    by blast
  from t ex_discover na nb a ta td g n m b tb
  have d: "fst (auto_discover_and_load_tools ex_host state_init) = Inr 2
           \<and> registered_tools (tool_registry (snd (auto_discover_and_load_tools ex_host state_init)))
               = dict_set ''foo'' ex_foo
                   (registered_tools (tool_registry
                      (snd (discover_tool_modules ex_host ''app.tools'' state_init))))"
    by blast
  from d have d1: "fst (auto_discover_and_load_tools ex_host state_init) = Inr 2" by blast
  from d have d2: "registered_tools (tool_registry (snd (auto_discover_and_load_tools ex_host state_init)))
       = [(''foo'', ex_foo)]"
    by (simp only: r) simp
  from c have c': "length (filter returned (load_attempts ex_host [''app.tools.a'', ''app.tools.b'']
               (snd (discover_tool_modules ex_host ''app.tools'' state_init)))) = 2"
    by simp
  from ex_discover na nb a ta td g m b tb d1 d2 c' show ?thesis by blast
qed

theorem build_url_single_slash_witness:
  "\<not> is_absolute ''/users''
   \<and> build_url \<lparr>base_url = ''https://api.example.com/'', api_key = '''',
                 api_key_header = ''Authorization''\<rparr> ''/users''
       = ''https://api.example.com/users''"
proof -
  have a: "\<not> is_absolute ''/users''" by (simp add: is_absolute_def startswith_def)
  from build_url_single_slash [OF a,
         of "\<lparr>base_url = ''https://api.example.com/'', api_key = '''',
              api_key_header = ''Authorization''\<rparr>"]
  obtain b e j k where
    u: "build_url \<lparr>base_url = ''https://api.example.com/'', api_key = '''',
                    api_key_header = ''Authorization''\<rparr> ''/users'' = b @ ''/'' @ e"
    by blast
  have "build_url \<lparr>base_url = ''https://api.example.com/'', api_key = '''',
                    api_key_header = ''Authorization''\<rparr> ''/users''
          = ''https://api.example.com/users''"
    using a by (simp add: build_url_def rstrip_char_def lstrip_char_def)
  with a u show ?thesis by simp
qed



end
